theory Spec2Isabelle
  imports Main "HOL-Library.Word" "HOL-Library.Sublist"
begin

section \<open>JavaScript strings and values\<close>

text \<open>
  A JavaScript string is a sequence of UTF-16 code units: \<open>split('')\<close>,
  \<open>charCodeAt\<close>, \<open>length\<close>, \<open>includes\<close> and the regular expressions
  without the \<open>u\<close> flag all work on code units. An ASCII literal of the source
  is written \<open>js ''...''\<close>; a character outside ASCII is written as its code units.
\<close>

type_synonym jsstring = "16 word list"

definition js :: "string \<Rightarrow> jsstring" where
  "js s = map (\<lambda>c. of_nat (of_char c)) s"

text \<open>
  A destructured field of the request body, or an environment variable, is a string or
  \<open>undefined\<close>. \<open>truthy v\<close> is the test \<open>if (v)\<close>: \<open>undefined\<close> and the
  empty string are falsy. \<open>or_else v d\<close> is \<open>v || d\<close>.
\<close>

fun truthy :: "jsstring option \<Rightarrow> bool" where
  "truthy None = False"
| "truthy (Some s) = (s \<noteq> [])"

fun str :: "jsstring option \<Rightarrow> jsstring" where
  "str None = []"
| "str (Some s) = s"

definition or_else :: "jsstring option \<Rightarrow> jsstring \<Rightarrow> jsstring" where
  "or_else v d = (if truthy v then str v else d)"

text \<open>\<open>s.includes(c)\<close> for a search string of one code unit.\<close>

definition includes_unit :: "jsstring \<Rightarrow> 16 word \<Rightarrow> bool" where
  "includes_unit s c = (c \<in> set s)"

definition at_sign :: "16 word" where
  "at_sign = 64"

section \<open>Referral codes\<close>

text \<open>
  \<^verbatim>\<open>
  function generateReferralCode(email: string): string {
    const hash = email.split('').reduce((acc, char) => {
      return ((acc << 5) - acc) + char.charCodeAt(0);
    }, 0);
    return `NC-${Math.abs(hash).toString(36).toUpperCase().slice(0, 6)}`;
  }
  \<close>
  \<open>acc\<close> is a JavaScript number holding an integer. \<open>acc << 5\<close> converts it to a
  signed 32-bit integer (modulo \<open>2 ^ 32\<close>), shifts within 32 bits and reads the result as
  signed; the subtraction and the addition that follow are ordinary number arithmetic and
  do not wrap. The model uses \<open>int\<close> for the number, which is exact as long as the
  accumulator stays below \<open>2 ^ 53\<close> in magnitude (see \<open>hash_bound\<close>).
\<close>

definition shl5 :: "int \<Rightarrow> int" where
  "shl5 acc = sint (push_bit 5 (word_of_int acc :: 32 word))"

definition hash_step :: "int \<Rightarrow> 16 word \<Rightarrow> int" where
  "hash_step acc char = (shl5 acc - acc) + uint char"

definition hash :: "jsstring \<Rightarrow> int" where
  "hash email = foldl hash_step 0 email"

text \<open>\<open>n.toString(36)\<close> for a non-negative integer: digits \<open>0-9\<close> then \<open>a-z\<close>.\<close>

definition digit36 :: "nat \<Rightarrow> 16 word" where
  "digit36 d = (if d < 10 then of_nat (48 + d) else of_nat (97 + (d - 10)))"

function toString36 :: "nat \<Rightarrow> jsstring" where
  "toString36 n = (if n < 36 then [digit36 n] else toString36 (n div 36) @ [digit36 (n mod 36)])"
  by pat_completeness auto
termination
  by (relation "measure id") auto

declare toString36.simps [simp del]

text \<open>
  \<open>toUpperCase\<close> on the code units \<open>a-z\<close>; the other ASCII code units are unchanged.
  The source applies it to the output of \<open>toString(36)\<close> only, which is ASCII.
\<close>

definition upper_unit :: "16 word \<Rightarrow> 16 word" where
  "upper_unit c = (if 97 \<le> c \<and> c \<le> 122 then c - 32 else c)"

definition toUpperCase :: "jsstring \<Rightarrow> jsstring" where
  "toUpperCase s = map upper_unit s"

definition generateReferralCode :: "jsstring \<Rightarrow> jsstring" where
  "generateReferralCode email =
     js ''NC-'' @ take 6 (toUpperCase (toString36 (nat \<bar>hash email\<bar>)))"

section \<open>Regular expressions\<close>

text \<open>
  The fragment of JavaScript regular expressions that the handlers use, with a
  backtracking matcher. A position is the index reached and the rest of the input;
  \<open>rmatch r p\<close> lists, in the order a backtracking engine tries them, the positions
  where a match of \<open>r\<close> that starts at \<open>p\<close> can end. \<open>RegExp.prototype.test\<close>
  (no flags) tries every start index and succeeds when some match exists.
\<close>

datatype rx =
    Bol
  | Eol
  | Unit "16 word"
  | Class "(16 word \<times> 16 word) list"
  | Seq rx rx
  | Alt rx rx
  | Rep rx nat nat
  | Ahead rx
  | NotAhead rx

type_synonym pos = "nat \<times> jsstring"

definition in_class :: "(16 word \<times> 16 word) list \<Rightarrow> 16 word \<Rightarrow> bool" where
  "in_class rs x = list_ex (\<lambda>r. fst r \<le> x \<and> x \<le> snd r) rs"

text \<open>\<open>r{lo,hi}\<close>, greedy: one more iteration is tried before stopping.\<close>

fun rep :: "(pos \<Rightarrow> pos list) \<Rightarrow> nat \<Rightarrow> nat \<Rightarrow> pos \<Rightarrow> pos list" where
  "rep m lo 0 p = (if lo = 0 then [p] else [])"
| "rep m lo (Suc hi) p =
     concat (map (rep m (lo - 1) hi) (m p)) @ (if lo = 0 then [p] else [])"

primrec rmatch :: "rx \<Rightarrow> pos \<Rightarrow> pos list" where
  "rmatch Bol p = (if fst p = 0 then [p] else [])"
| "rmatch Eol p = (if snd p = [] then [p] else [])"
| "rmatch (Unit c) p =
     (case snd p of [] \<Rightarrow> [] | x # xs \<Rightarrow> if x = c then [(Suc (fst p), xs)] else [])"
| "rmatch (Class rs) p =
     (case snd p of [] \<Rightarrow> [] | x # xs \<Rightarrow> if in_class rs x then [(Suc (fst p), xs)] else [])"
| "rmatch (Seq a b) p = concat (map (rmatch b) (rmatch a p))"
| "rmatch (Alt a b) p = rmatch a p @ rmatch b p"
| "rmatch (Rep r lo hi) p = rep (rmatch r) lo hi p"
| "rmatch (Ahead r) p = (if rmatch r p \<noteq> [] then [p] else [])"
| "rmatch (NotAhead r) p = (if rmatch r p = [] then [p] else [])"

fun starts :: "nat \<Rightarrow> jsstring \<Rightarrow> pos list" where
  "starts i [] = [(i, [])]"
| "starts i (x # xs) = (i, x # xs) # starts (Suc i) xs"

definition test :: "rx \<Rightarrow> jsstring \<Rightarrow> bool" where
  "test r s = list_ex (\<lambda>p. rmatch r p \<noteq> []) (starts 0 s)"

definition u :: "char \<Rightarrow> 16 word" where
  "u c = of_nat (of_char c)"

text \<open>The pattern \<^verbatim>\<open>^NC-[A-Z0-9]{1,6}$\<close> that the specification gives for a referral code.\<close>

definition referralCodePattern :: rx where
  "referralCodePattern =
     Seq Bol (Seq (Unit (u CHR ''N'')) (Seq (Unit (u CHR ''C'')) (Seq (Unit (u CHR ''-''))
       (Seq (Rep (Class [(u CHR ''A'', u CHR ''Z''), (u CHR ''0'', u CHR ''9'')]) 1 6) Eol))))"

section \<open>Requests, responses and the outside world\<close>

text \<open>
  A handler answers with \<open>res.status(n).end()\<close>, \<open>res.status(n).json({error})\<close> or
  \<open>res.status(n).json({success: true, message})\<close>, after setting the same four
  cross-origin headers on every response.
\<close>

datatype body = End | Error jsstring | Success jsstring

datatype response = Response (status: nat) (headers: "(jsstring \<times> jsstring) list") (body: body)

definition cors_headers :: "(jsstring \<times> jsstring) list" where
  "cors_headers =
     [(js ''Access-Control-Allow-Credentials'', js ''true''),
      (js ''Access-Control-Allow-Origin'', js ''*''),
      (js ''Access-Control-Allow-Methods'', js ''GET,OPTIONS,PATCH,DELETE,POST,PUT''),
      (js ''Access-Control-Allow-Headers'', js ''Content-Type'')]"

definition json :: "nat \<Rightarrow> body \<Rightarrow> response" where
  "json n b = Response n cors_headers b"

text \<open>
  A request has its method and its parsed JSON body, an object whose members are read by
  destructuring. A request without a body is outside this type: destructuring
  \<open>undefined\<close> throws inside the \<open>try\<close> block, which the \<open>catch\<close> answers with 500.
\<close>

record 'b request =
  req_method :: jsstring
  req_body :: 'b

text \<open>
  The outbound calls. The HTML bodies of the emails are opaque: a template is named by
  the source function (or inline literal) that builds it and the submission values it
  interpolates.
\<close>

datatype template =
    WaitlistEmail jsstring
  | Foundation100Email jsstring
  | WaitlistAdminHtml "jsstring option" jsstring "jsstring option"
  | FriendInviteEmail jsstring jsstring jsstring
  | ReferrerConfirmationEmail jsstring jsstring "jsstring option"
  | ReferralAdminHtml jsstring jsstring "jsstring option" jsstring jsstring jsstring
  | AlphaAdminHtml jsstring jsstring jsstring jsstring jsstring
  | AlphaUserHtml jsstring jsstring

record mail =
  mail_to :: jsstring
  from_email :: jsstring
  from_name :: jsstring
  subject :: jsstring
  content :: template

record contact =
  contact_email :: jsstring
  first_name :: jsstring
  custom_fields :: "(jsstring \<times> jsstring option) list"

datatype call =
    MailSend jsstring mail
  | ContactsPut jsstring "contact list"
  | SiteVerify jsstring jsstring "jsstring option"

text \<open>
  What \<open>fetch\<close> gives back: the promise rejects (a network failure), or it resolves to
  a response with its \<open>ok\<close> flag, the result of \<open>text()\<close> (\<open>None\<close> when reading
  the body rejects) and the truth value of the \<open>success\<close> member of \<open>json()\<close>
  (\<open>None\<close> when parsing rejects or the value has no members).
\<close>

record http_response =
  resp_ok :: bool
  resp_text :: "jsstring option"
  resp_json :: "bool option"

datatype fetch_outcome = Rejects | Resolves http_response

text \<open>
  The module constants read from the process environment, the clock, the locale-free
  \<open>String.prototype.toLowerCase\<close> of the runtime, and the network: \<open>net e n\<close> is
  the outcome of the \<open>n\<close>-th outbound call of the request (counted from 0).
\<close>

record env =
  SENDGRID_API_KEY :: "jsstring option"
  TURNSTILE_SECRET_KEY :: "jsstring option"
  net :: "nat \<Rightarrow> fetch_outcome"
  now :: jsstring
  toLowerCase :: "jsstring \<Rightarrow> jsstring"

datatype level = Log | Warn | Err

record st =
  calls :: "call list"
  logs :: "(level \<times> jsstring) list"

definition init :: st where
  "init = \<lparr>calls = [], logs = []\<rparr>"

definition fetch :: "env \<Rightarrow> call \<Rightarrow> st \<Rightarrow> fetch_outcome \<times> st" where
  "fetch e c s = (net e (length (calls s)), s\<lparr>calls := calls s @ [c]\<rparr>)"

text \<open>\<open>console.log\<close>, \<open>console.warn\<close>, \<open>console.error\<close>: the first argument is kept.\<close>

definition console :: "level \<Rightarrow> jsstring \<Rightarrow> st \<Rightarrow> st" where
  "console l msg s = s\<lparr>logs := logs s @ [(l, msg)]\<rparr>"

datatype exn = FetchRejected | BodyRejected | Thrown jsstring

definition ADMIN_EMAIL :: jsstring where
  "ADMIN_EMAIL = js ''bradley@neuralcommander.ai''"

section \<open>The bot verifier (src/lib/turnstile.ts)\<close>

definition verifyTurnstileToken ::
  "env \<Rightarrow> jsstring option \<Rightarrow> jsstring option \<Rightarrow> jsstring option \<Rightarrow> st \<Rightarrow> bool \<times> st" where
  "verifyTurnstileToken e token secretKey remoteip s =
     (if \<not> truthy secretKey then
        (True, console Warn (js ''Turnstile secret key not configured - skipping verification'') s)
      else if \<not> truthy token then
        (False, console Log (js ''No Turnstile token provided'') s)
      else
        (case fetch e (SiteVerify (str secretKey) (str token)
                         (if truthy remoteip then remoteip else None)) s of
           (Rejects, s1) \<Rightarrow> (False, console Err (js ''Turnstile verification error:'') s1)
         | (Resolves response, s1) \<Rightarrow>
             (case resp_json response of
                None \<Rightarrow> (False, console Err (js ''Turnstile verification error:'') s1)
              | Some success \<Rightarrow>
                  (success,
                   if \<not> success then console Log (js ''Turnstile verification failed:'') s1
                   else s1))))"

section \<open>The waitlist handler (src/unnamed/part_001)\<close>

definition FROM_EMAIL :: jsstring where
  "FROM_EMAIL = js ''noreply@neuralcommander.ai''"

record waitlist_data =
  w_email :: "jsstring option"
  w_name :: "jsstring option"
  w_type :: "jsstring option"

text \<open>The code units \<open>0xD83C 0xDF89\<close> and so on are the emoji of the subjects.\<close>

definition waitlist_user_mail :: "jsstring \<Rightarrow> jsstring option \<Rightarrow> jsstring option \<Rightarrow> mail" where
  "waitlist_user_mail email name type =
     \<lparr>mail_to = email, from_email = FROM_EMAIL, from_name = js ''Neural Commander'',
      subject = (if type = Some (js ''foundation100'')
                 then [0xD83C, 0xDF89] @ js '' Welcome to Foundation 100!''
                 else [0xD83D, 0xDE80] @ js '' You're on the Neural Commander Waitlist!''),
      content = (if type = Some (js ''foundation100'')
                 then Foundation100Email (or_else name (js ''there''))
                 else WaitlistEmail (or_else name (js ''there'')))\<rparr>"

definition waitlist_admin_mail :: "jsstring \<Rightarrow> jsstring option \<Rightarrow> jsstring option \<Rightarrow> mail" where
  "waitlist_admin_mail email name type =
     \<lparr>mail_to = ADMIN_EMAIL, from_email = FROM_EMAIL, from_name = js ''NC Waitlist'',
      subject = (if type = Some (js ''foundation100'')
                 then [0xD83D, 0xDCB0] @ js '' Foundation 100 Signup: '' @ email
                 else [0xD83D, 0xDCCB] @ js '' New Waitlist Signup: '' @ email),
      content = WaitlistAdminHtml type email name\<rparr>"

definition waitlist_contacts :: "env \<Rightarrow> jsstring \<Rightarrow> jsstring option \<Rightarrow> jsstring option \<Rightarrow> call" where
  "waitlist_contacts e email name type =
     ContactsPut (str (SENDGRID_API_KEY e))
       [\<lparr>contact_email = email, first_name = or_else name [],
         custom_fields = [(js ''signup_type'', type), (js ''signup_date'', Some (now e))]\<rparr>]"

definition waitlist_addToContactList ::
  "env \<Rightarrow> jsstring \<Rightarrow> jsstring option \<Rightarrow> jsstring option \<Rightarrow> st \<Rightarrow> st" where
  "waitlist_addToContactList e email name type s =
     (if \<not> truthy (SENDGRID_API_KEY e) then s
      else
        (case fetch e (waitlist_contacts e email name type) s of
           (Rejects, s1) \<Rightarrow> console Err (js ''Failed to add to contact list:'') s1
         | (Resolves r, s1) \<Rightarrow> s1))"

text \<open>
  The body of the \<open>try\<close> block: \<open>Inr\<close> is the response it returns, \<open>Inl\<close> the
  exception that reaches the \<open>catch\<close>.
\<close>

definition waitlist_try :: "env \<Rightarrow> waitlist_data \<Rightarrow> st \<Rightarrow> (exn + response) \<times> st" where
  "waitlist_try e b s =
     (let email = w_email b; name = w_name b; type = w_type b in
      if \<not> truthy email \<or> \<not> includes_unit (str email) at_sign then
        (Inr (json 400 (Error (js ''Valid email required''))), s)
      else if \<not> truthy (SENDGRID_API_KEY e) then
        (Inr (json 500 (Error (js ''Email service not configured''))),
         console Err (js ''SendGrid API key not configured'') s)
      else
        (case fetch e (MailSend (str (SENDGRID_API_KEY e))
                         (waitlist_user_mail (str email) name type)) s of
           (Rejects, s1) \<Rightarrow> (Inl FetchRejected, s1)
         | (Resolves userEmailResponse, s1) \<Rightarrow>
             if \<not> resp_ok userEmailResponse then
               (case resp_text userEmailResponse of
                  None \<Rightarrow> (Inl BodyRejected, s1)
                | Some errorText \<Rightarrow>
                    (Inl (Thrown (js ''Failed to send confirmation email'')),
                     console Err (js ''SendGrid error (user):'') s1))
             else
               (case fetch e (MailSend (str (SENDGRID_API_KEY e))
                                (waitlist_admin_mail (str email) name type)) s1 of
                  (Rejects, s2) \<Rightarrow> (Inl FetchRejected, s2)
                | (Resolves adminEmailResponse, s2) \<Rightarrow>
                    if \<not> resp_ok adminEmailResponse \<and> resp_text adminEmailResponse = None then
                      (Inl BodyRejected, s2)
                    else
                      (Inr (json 200 (Success (js ''Successfully joined the waitlist!''))),
                       waitlist_addToContactList e (str email) name type
                         (if \<not> resp_ok adminEmailResponse
                          then console Err (js ''SendGrid error (admin):'') s2
                          else s2)))))"

definition waitlist_handler :: "env \<Rightarrow> waitlist_data request \<Rightarrow> response \<times> st" where
  "waitlist_handler e req =
     (if req_method req = js ''OPTIONS'' then (json 200 End, init)
      else if req_method req \<noteq> js ''POST'' then
        (json 405 (Error (js ''Method not allowed'')), init)
      else
        (case waitlist_try e (req_body req) init of
           (Inr res, s) \<Rightarrow> (res, s)
         | (Inl error, s) \<Rightarrow>
             (json 500 (Error (js ''Failed to process signup'')),
              console Err (js ''Waitlist error:'') s)))"

section \<open>The referral handler (src/unnamed/part_002)\<close>

text \<open>\<open>ADMIN_EMAIL\<close> and \<open>FROM_EMAIL\<close> have the same values as in the waitlist module.\<close>

record referral_data =
  r_referrerName :: "jsstring option"
  r_referrerEmail :: "jsstring option"
  r_counterpartyAddress :: "jsstring option"
  r_friendName :: "jsstring option"
  r_friendEmail :: "jsstring option"

definition friend_mail :: "jsstring \<Rightarrow> jsstring \<Rightarrow> jsstring \<Rightarrow> jsstring \<Rightarrow> mail" where
  "friend_mail friendEmail friendName referrerName referralCode =
     \<lparr>mail_to = friendEmail, from_email = FROM_EMAIL, from_name = js ''Neural Commander'',
      subject = referrerName @ js '' invited you to try Neural Commander'',
      content = FriendInviteEmail friendName referrerName referralCode\<rparr>"

definition referrer_mail :: "jsstring \<Rightarrow> jsstring \<Rightarrow> jsstring \<Rightarrow> jsstring option \<Rightarrow> mail" where
  "referrer_mail referrerEmail referrerName friendName counterpartyAddress =
     \<lparr>mail_to = referrerEmail, from_email = FROM_EMAIL, from_name = js ''Neural Commander'',
      subject = js ''Your referral to '' @ friendName @ js '' has been sent!'',
      content = ReferrerConfirmationEmail referrerName friendName counterpartyAddress\<rparr>"

definition referral_admin_mail ::
  "jsstring \<Rightarrow> jsstring \<Rightarrow> jsstring option \<Rightarrow> jsstring \<Rightarrow> jsstring \<Rightarrow> jsstring \<Rightarrow> mail" where
  "referral_admin_mail referrerName referrerEmail counterpartyAddress friendName friendEmail
       referralCode =
     \<lparr>mail_to = ADMIN_EMAIL, from_email = FROM_EMAIL, from_name = js ''NC Referrals'',
      subject = [0xD83D, 0xDD17] @ js '' New Referral: '' @ referrerName @ js '' '' @ [0x2192]
                @ js '' '' @ friendName,
      content = ReferralAdminHtml referrerName referrerEmail counterpartyAddress friendName
                  friendEmail referralCode\<rparr>"

definition referral_contacts ::
  "env \<Rightarrow> jsstring \<Rightarrow> jsstring \<Rightarrow> jsstring \<Rightarrow> jsstring \<Rightarrow> jsstring \<Rightarrow> jsstring option \<Rightarrow> call" where
  "referral_contacts e referrerEmail referrerName friendEmail friendName referralCode
       counterpartyAddress =
     ContactsPut (str (SENDGRID_API_KEY e))
       [\<lparr>contact_email = referrerEmail, first_name = referrerName,
         custom_fields = [(js ''referral_code'', Some referralCode),
                          (js ''counterparty_address'', Some (or_else counterpartyAddress [])),
                          (js ''referrals_sent'', Some (js ''1''))]\<rparr>,
        \<lparr>contact_email = friendEmail, first_name = friendName,
         custom_fields = [(js ''referred_by'', Some referrerEmail),
                          (js ''referral_code_used'', Some referralCode),
                          (js ''signup_type'', Some (js ''referral''))]\<rparr>]"

definition addReferralContacts ::
  "env \<Rightarrow> jsstring \<Rightarrow> jsstring \<Rightarrow> jsstring \<Rightarrow> jsstring \<Rightarrow> jsstring \<Rightarrow> jsstring option \<Rightarrow> st \<Rightarrow> st" where
  "addReferralContacts e referrerEmail referrerName friendEmail friendName referralCode
       counterpartyAddress s =
     (if \<not> truthy (SENDGRID_API_KEY e) then s
      else
        (case fetch e (referral_contacts e referrerEmail referrerName friendEmail friendName
                         referralCode counterpartyAddress) s of
           (Rejects, s1) \<Rightarrow> console Err (js ''Failed to add referral contacts:'') s1
         | (Resolves r, s1) \<Rightarrow> s1))"

definition referral_try :: "env \<Rightarrow> referral_data \<Rightarrow> st \<Rightarrow> (exn + response) \<times> st" where
  "referral_try e b s =
     (if \<not> truthy (r_referrerName b) \<or> \<not> truthy (r_referrerEmail b) \<or> \<not> truthy (r_friendName b)
         \<or> \<not> truthy (r_friendEmail b) then
        (Inr (json 400 (Error (js ''All required fields must be provided''))), s)
      else if \<not> includes_unit (str (r_referrerEmail b)) at_sign
              \<or> \<not> includes_unit (str (r_friendEmail b)) at_sign then
        (Inr (json 400 (Error (js ''Valid email addresses required''))), s)
      else if toLowerCase e (str (r_referrerEmail b)) = toLowerCase e (str (r_friendEmail b)) then
        (Inr (json 400 (Error (js ''You cannot refer yourself''))), s)
      else if \<not> truthy (SENDGRID_API_KEY e) then
        (Inr (json 500 (Error (js ''Email service not configured''))),
         console Err (js ''SendGrid API key not configured'') s)
      else
        (let referralCode = generateReferralCode (str (r_referrerEmail b)) in
         case fetch e (MailSend (str (SENDGRID_API_KEY e))
                         (friend_mail (str (r_friendEmail b)) (str (r_friendName b))
                            (str (r_referrerName b)) referralCode)) s of
           (Rejects, s1) \<Rightarrow> (Inl FetchRejected, s1)
         | (Resolves friendEmailResponse, s1) \<Rightarrow>
             if \<not> resp_ok friendEmailResponse then
               (case resp_text friendEmailResponse of
                  None \<Rightarrow> (Inl BodyRejected, s1)
                | Some errorText \<Rightarrow>
                    (Inl (Thrown (js ''Failed to send invite email'')),
                     console Err (js ''SendGrid error (friend):'') s1))
             else
               (case fetch e (MailSend (str (SENDGRID_API_KEY e))
                                (referrer_mail (str (r_referrerEmail b)) (str (r_referrerName b))
                                   (str (r_friendName b)) (r_counterpartyAddress b))) s1 of
                  (Rejects, s2) \<Rightarrow> (Inl FetchRejected, s2)
                | (Resolves referrerEmailResponse, s2) \<Rightarrow>
                    if \<not> resp_ok referrerEmailResponse
                       \<and> resp_text referrerEmailResponse = None then
                      (Inl BodyRejected, s2)
                    else
                      (case fetch e (MailSend (str (SENDGRID_API_KEY e))
                                       (referral_admin_mail (str (r_referrerName b))
                                          (str (r_referrerEmail b)) (r_counterpartyAddress b)
                                          (str (r_friendName b)) (str (r_friendEmail b))
                                          referralCode))
                              (if \<not> resp_ok referrerEmailResponse
                               then console Err (js ''SendGrid error (referrer):'') s2
                               else s2) of
                         (Rejects, s3) \<Rightarrow> (Inl FetchRejected, s3)
                       | (Resolves adminEmailResponse, s3) \<Rightarrow>
                           if \<not> resp_ok adminEmailResponse
                              \<and> resp_text adminEmailResponse = None then
                             (Inl BodyRejected, s3)
                           else
                             (Inr (json 200 (Success (js ''Referral sent successfully!''))),
                              addReferralContacts e (str (r_referrerEmail b))
                                (str (r_referrerName b)) (str (r_friendEmail b))
                                (str (r_friendName b)) referralCode (r_counterpartyAddress b)
                                (if \<not> resp_ok adminEmailResponse
                                 then console Err (js ''SendGrid error (admin):'') s3
                                 else s3))))))"

definition referral_handler :: "env \<Rightarrow> referral_data request \<Rightarrow> response \<times> st" where
  "referral_handler e req =
     (if req_method req = js ''OPTIONS'' then (json 200 End, init)
      else if req_method req \<noteq> js ''POST'' then
        (json 405 (Error (js ''Method not allowed'')), init)
      else
        (case referral_try e (req_body req) init of
           (Inr res, s) \<Rightarrow> (res, s)
         | (Inl error, s) \<Rightarrow>
             (json 500 (Error (js ''Failed to process referral'')),
              console Err (js ''Referral error:'') s)))"

section \<open>The alpha-signup handler (src/api/alpha-signup.ts)\<close>

definition alpha_FROM_EMAIL :: jsstring where
  "alpha_FROM_EMAIL = js ''hello@neuralcommander.ai''"

record alpha_data =
  a_name :: "jsstring option"
  a_email :: "jsstring option"
  a_github :: "jsstring option"
  a_discovery :: "jsstring option"
  a_motivation :: "jsstring option"
  a_turnstileToken :: "jsstring option"

text \<open>\<^verbatim>\<open>/^[a-zA-Z0-9](?:[a-zA-Z0-9]|-(?=[a-zA-Z0-9])){0,38}$/\<close>\<close>

definition alnum :: rx where
  "alnum = Class [(u CHR ''a'', u CHR ''z''), (u CHR ''A'', u CHR ''Z''), (u CHR ''0'', u CHR ''9'')]"

definition githubPattern :: rx where
  "githubPattern =
     Seq Bol (Seq alnum
       (Seq (Rep (Alt alnum (Seq (Unit (u CHR ''-'')) (Ahead alnum))) 0 38) Eol))"

text \<open>
  The pattern as the specification writes it,
  \<^verbatim>\<open>^[A-Za-z0-9](?:[A-Za-z0-9]|-(?!-)){0,38}$\<close>, for comparison with the one of
  the source.
\<close>

definition spec_alnum :: rx where
  "spec_alnum = Class [(u CHR ''A'', u CHR ''Z''), (u CHR ''a'', u CHR ''z''), (u CHR ''0'', u CHR ''9'')]"

definition spec_githubPattern :: rx where
  "spec_githubPattern =
     Seq Bol (Seq spec_alnum
       (Seq (Rep (Alt spec_alnum (Seq (Unit (u CHR ''-'')) (NotAhead (Unit (u CHR ''-''))))) 0 38)
          Eol))"

definition verifyTurnstile :: "env \<Rightarrow> jsstring \<Rightarrow> st \<Rightarrow> bool \<times> st" where
  "verifyTurnstile e token s =
     (if \<not> truthy (TURNSTILE_SECRET_KEY e) then (True, s)
      else
        (case fetch e (SiteVerify (str (TURNSTILE_SECRET_KEY e)) token None) s of
           (Rejects, s1) \<Rightarrow> (False, console Err (js ''Turnstile verification error:'') s1)
         | (Resolves response, s1) \<Rightarrow>
             (case resp_json response of
                None \<Rightarrow> (False, console Err (js ''Turnstile verification error:'') s1)
              | Some success \<Rightarrow> (success, s1))))"

definition alpha_admin_mail ::
  "jsstring \<Rightarrow> jsstring \<Rightarrow> jsstring \<Rightarrow> jsstring \<Rightarrow> jsstring \<Rightarrow> mail" where
  "alpha_admin_mail name email github discovery motivation =
     \<lparr>mail_to = ADMIN_EMAIL, from_email = alpha_FROM_EMAIL, from_name = js ''NC Alpha Signups'',
      subject = [0xD83E, 0xDDEA] @ js '' Alpha Request: '' @ github @ js '' ('' @ name @ js '')'',
      content = AlphaAdminHtml name email github discovery motivation\<rparr>"

definition alpha_user_mail :: "jsstring \<Rightarrow> jsstring \<Rightarrow> jsstring \<Rightarrow> mail" where
  "alpha_user_mail name email github =
     \<lparr>mail_to = email, from_email = alpha_FROM_EMAIL, from_name = js ''Neural Commander'',
      subject = [0xD83E, 0xDDEA] @ js '' Alpha Access Request Received - Neural Commander'',
      content = AlphaUserHtml name github\<rparr>"

definition alpha_contacts :: "env \<Rightarrow> jsstring \<Rightarrow> jsstring \<Rightarrow> jsstring \<Rightarrow> jsstring \<Rightarrow> call" where
  "alpha_contacts e name email github discovery =
     ContactsPut (str (SENDGRID_API_KEY e))
       [\<lparr>contact_email = email, first_name = name,
         custom_fields = [(js ''signup_type'', Some (js ''alpha'')),
                          (js ''github_username'', Some github),
                          (js ''discovery_source'', Some discovery),
                          (js ''signup_date'', Some (now e))]\<rparr>]"

text \<open>
  The two senders await \<open>fetch\<close> and never look at the response. The lookup of the
  discovery label in \<open>DISCOVERY_LABELS\<close> only feeds the HTML of the admin email and the
  data of a log line, so it is part of the opaque template.
\<close>

definition sendAdminNotification ::
  "env \<Rightarrow> jsstring \<Rightarrow> jsstring \<Rightarrow> jsstring \<Rightarrow> jsstring \<Rightarrow> jsstring \<Rightarrow> st \<Rightarrow> (exn + unit) \<times> st" where
  "sendAdminNotification e name email github discovery motivation s =
     (case fetch e (MailSend (str (SENDGRID_API_KEY e))
                      (alpha_admin_mail name email github discovery motivation)) s of
        (Rejects, s1) \<Rightarrow> (Inl FetchRejected, s1)
      | (Resolves r, s1) \<Rightarrow> (Inr (), s1))"

definition sendUserConfirmation ::
  "env \<Rightarrow> jsstring \<Rightarrow> jsstring \<Rightarrow> jsstring \<Rightarrow> st \<Rightarrow> (exn + unit) \<times> st" where
  "sendUserConfirmation e name email github s =
     (case fetch e (MailSend (str (SENDGRID_API_KEY e)) (alpha_user_mail name email github)) s of
        (Rejects, s1) \<Rightarrow> (Inl FetchRejected, s1)
      | (Resolves r, s1) \<Rightarrow> (Inr (), s1))"

definition alpha_addToContactList ::
  "env \<Rightarrow> jsstring \<Rightarrow> jsstring \<Rightarrow> jsstring \<Rightarrow> jsstring \<Rightarrow> st \<Rightarrow> st" where
  "alpha_addToContactList e name email github discovery s =
     (case fetch e (alpha_contacts e name email github discovery) s of
        (Rejects, s1) \<Rightarrow> console Err (js ''Failed to add to contact list:'') s1
      | (Resolves r, s1) \<Rightarrow> s1)"

text \<open>The inner \<open>try\<close> block with its \<open>catch\<close>, which logs and continues.\<close>

definition alpha_send_emails ::
  "env \<Rightarrow> jsstring \<Rightarrow> jsstring \<Rightarrow> jsstring \<Rightarrow> jsstring \<Rightarrow> jsstring \<Rightarrow> st \<Rightarrow> st" where
  "alpha_send_emails e name email github discovery motivation s =
     (case sendAdminNotification e name email github discovery motivation s of
        (Inl emailError, s1) \<Rightarrow> console Err (js ''Email sending error:'') s1
      | (Inr _, s1) \<Rightarrow>
          (case sendUserConfirmation e name email github s1 of
             (Inl emailError, s2) \<Rightarrow> console Err (js ''Email sending error:'') s2
           | (Inr _, s2) \<Rightarrow> alpha_addToContactList e name email github discovery s2))"

definition alpha_try :: "env \<Rightarrow> alpha_data \<Rightarrow> st \<Rightarrow> (exn + response) \<times> st" where
  "alpha_try e b s =
     (if \<not> truthy (a_name b) \<or> \<not> truthy (a_email b) \<or> \<not> truthy (a_github b)
         \<or> \<not> truthy (a_discovery b) \<or> \<not> truthy (a_motivation b) then
        (Inr (json 400 (Error (js ''All fields are required''))), s)
      else if \<not> includes_unit (str (a_email b)) at_sign then
        (Inr (json 400 (Error (js ''Valid email required''))), s)
      else if length (str (a_motivation b)) < 20 then
        (Inr (json 400 (Error (js ''Please provide a more detailed motivation''))), s)
      else if \<not> test githubPattern (str (a_github b)) then
        (Inr (json 400 (Error (js ''Invalid GitHub username format''))), s)
      else
        (case (if truthy (TURNSTILE_SECRET_KEY e) \<and> truthy (a_turnstileToken b)
               then verifyTurnstile e (str (a_turnstileToken b)) s
               else (True, s)) of
           (False, s1) \<Rightarrow>
             (Inr (json 400 (Error (js ''Bot verification failed. Please try again.''))), s1)
         | (True, s1) \<Rightarrow>
             (Inr (json 200 (Success (js ''Alpha access request submitted!''))),
              (let s2 = console Log ([0xD83C, 0xDF89] @ js '' NEW ALPHA SIGNUP:'') s1 in
               if truthy (SENDGRID_API_KEY e) then
                 alpha_send_emails e (str (a_name b)) (str (a_email b)) (str (a_github b))
                   (str (a_discovery b)) (str (a_motivation b)) s2
               else
                 console Log (js ''SendGrid not configured - signup logged but no emails sent'')
                   s2))))"

definition alpha_handler :: "env \<Rightarrow> alpha_data request \<Rightarrow> response \<times> st" where
  "alpha_handler e req =
     (if req_method req = js ''OPTIONS'' then (json 200 End, init)
      else if req_method req \<noteq> js ''POST'' then
        (json 405 (Error (js ''Method not allowed'')), init)
      else
        (case alpha_try e (req_body req) init of
           (Inr res, s) \<Rightarrow> (res, s)
         | (Inl error, s) \<Rightarrow>
             (json 500 (Error (js ''Failed to process signup'')),
              console Err (js ''Alpha signup error:'') s)))"

section \<open>Notions used in the statements\<close>

text \<open>
  The units the referral-code pattern allows after the prefix, and the plain reading of
  the GitHub pattern of the source: a first alphanumeric unit, then at most 38 units,
  each alphanumeric or a hyphen that is directly followed by an alphanumeric unit.
\<close>

definition code_class :: "(16 word \<times> 16 word) list" where
  "code_class = [(u CHR ''A'', u CHR ''Z''), (u CHR ''0'', u CHR ''9'')]"

definition is_alnum :: "16 word \<Rightarrow> bool" where
  "is_alnum c = ((97 \<le> c \<and> c \<le> 122) \<or> (65 \<le> c \<and> c \<le> 90) \<or> (48 \<le> c \<and> c \<le> 57))"

definition item_ok :: "jsstring \<Rightarrow> bool" where
  "item_ok s =
     (case s of
        [] \<Rightarrow> False
      | c # cs \<Rightarrow> is_alnum c \<or> (c = 45 \<and> (case cs of [] \<Rightarrow> False | d # ds \<Rightarrow> is_alnum d)))"

fun suffixes_ok :: "(jsstring \<Rightarrow> bool) \<Rightarrow> jsstring \<Rightarrow> bool" where
  "suffixes_ok ok [] = True"
| "suffixes_ok ok (x # xs) = (ok (x # xs) \<and> suffixes_ok ok xs)"

definition github_shape :: "jsstring \<Rightarrow> bool" where
  "github_shape s =
     (case s of
        [] \<Rightarrow> False
      | c # cs \<Rightarrow> is_alnum c \<and> length cs \<le> 38 \<and> suffixes_ok item_ok cs)"

text \<open>
  A \<open>POST\<close> request, and the submissions that pass each handler's validation (the
  negations of the checks of the source, in its order).
\<close>

definition post :: "'b \<Rightarrow> 'b request" where
  "post b = \<lparr>req_method = js ''POST'', req_body = b\<rparr>"

definition waitlist_valid :: "waitlist_data \<Rightarrow> bool" where
  "waitlist_valid b = (truthy (w_email b) \<and> includes_unit (str (w_email b)) at_sign)"

definition referral_fields_ok :: "referral_data \<Rightarrow> bool" where
  "referral_fields_ok b =
     (truthy (r_referrerName b) \<and> truthy (r_referrerEmail b) \<and> truthy (r_friendName b)
      \<and> truthy (r_friendEmail b)
      \<and> includes_unit (str (r_referrerEmail b)) at_sign
      \<and> includes_unit (str (r_friendEmail b)) at_sign)"

definition self_referral :: "env \<Rightarrow> referral_data \<Rightarrow> bool" where
  "self_referral e b =
     (toLowerCase e (str (r_referrerEmail b)) = toLowerCase e (str (r_friendEmail b)))"

definition alpha_fields_ok :: "alpha_data \<Rightarrow> bool" where
  "alpha_fields_ok b =
     (truthy (a_name b) \<and> truthy (a_email b) \<and> truthy (a_github b) \<and> truthy (a_discovery b)
      \<and> truthy (a_motivation b)
      \<and> includes_unit (str (a_email b)) at_sign
      \<and> 20 \<le> length (str (a_motivation b)))"

text \<open>The bot check of the alpha handler is skipped, or it runs and succeeds.\<close>

definition bot_check_passes :: "env \<Rightarrow> alpha_data \<Rightarrow> bool" where
  "bot_check_passes e b =
     (if truthy (TURNSTILE_SECRET_KEY e) \<and> truthy (a_turnstileToken b)
      then fst (verifyTurnstile e (str (a_turnstileToken b)) init)
      else True)"

fun is_SiteVerify :: "call \<Rightarrow> bool" where
  "is_SiteVerify (SiteVerify secret token ip) = True"
| "is_SiteVerify c = False"

text \<open>Every outbound call of the request resolves with a success status.\<close>

definition all_ok :: "env \<Rightarrow> bool" where
  "all_ok e = (\<forall>n. \<exists>r. net e n = Resolves r \<and> resp_ok r)"

text \<open>The order in which each handler issues its email-service calls.\<close>

definition waitlist_jobs :: "env \<Rightarrow> waitlist_data \<Rightarrow> call list" where
  "waitlist_jobs e b =
     [MailSend (str (SENDGRID_API_KEY e)) (waitlist_user_mail (str (w_email b)) (w_name b) (w_type b)),
      MailSend (str (SENDGRID_API_KEY e)) (waitlist_admin_mail (str (w_email b)) (w_name b) (w_type b)),
      waitlist_contacts e (str (w_email b)) (w_name b) (w_type b)]"

definition referral_jobs :: "env \<Rightarrow> referral_data \<Rightarrow> call list" where
  "referral_jobs e b =
     [MailSend (str (SENDGRID_API_KEY e))
        (friend_mail (str (r_friendEmail b)) (str (r_friendName b)) (str (r_referrerName b))
           (generateReferralCode (str (r_referrerEmail b)))),
      MailSend (str (SENDGRID_API_KEY e))
        (referrer_mail (str (r_referrerEmail b)) (str (r_referrerName b)) (str (r_friendName b))
           (r_counterpartyAddress b)),
      MailSend (str (SENDGRID_API_KEY e))
        (referral_admin_mail (str (r_referrerName b)) (str (r_referrerEmail b))
           (r_counterpartyAddress b) (str (r_friendName b)) (str (r_friendEmail b))
           (generateReferralCode (str (r_referrerEmail b)))),
      referral_contacts e (str (r_referrerEmail b)) (str (r_referrerName b))
        (str (r_friendEmail b)) (str (r_friendName b))
        (generateReferralCode (str (r_referrerEmail b))) (r_counterpartyAddress b)]"

definition alpha_jobs :: "env \<Rightarrow> alpha_data \<Rightarrow> call list" where
  "alpha_jobs e b =
     [MailSend (str (SENDGRID_API_KEY e))
        (alpha_admin_mail (str (a_name b)) (str (a_email b)) (str (a_github b))
           (str (a_discovery b)) (str (a_motivation b))),
      MailSend (str (SENDGRID_API_KEY e))
        (alpha_user_mail (str (a_name b)) (str (a_email b)) (str (a_github b))),
      alpha_contacts e (str (a_name b)) (str (a_email b)) (str (a_github b))
        (str (a_discovery b))]"

text \<open>Concrete inputs for the examples: responses, environments and submissions.\<close>

definition lower_unit :: "16 word \<Rightarrow> 16 word" where
  "lower_unit c = (if 65 \<le> c \<and> c \<le> 90 then c + 32 else c)"

definition resp_success :: http_response where
  "resp_success = \<lparr>resp_ok = True, resp_text = Some [], resp_json = Some True\<rparr>"

definition resp_failure :: http_response where
  "resp_failure = \<lparr>resp_ok = False, resp_text = Some (js ''Unauthorized''), resp_json = None\<rparr>"

definition env_up :: env where
  "env_up = \<lparr>SENDGRID_API_KEY = Some (js ''SG.key''), TURNSTILE_SECRET_KEY = None,
             net = (\<lambda>n. Resolves resp_success), now = js ''2026-01-01T00:00:00.000Z'',
             toLowerCase = map lower_unit\<rparr>"

definition waitlist_ann :: waitlist_data where
  "waitlist_ann = \<lparr>w_email = Some (js ''a@b.com''), w_name = Some (js ''Ann''),
                   w_type = Some (js ''waitlist'')\<rparr>"

definition referral_ann :: referral_data where
  "referral_ann = \<lparr>r_referrerName = Some (js ''Ann''), r_referrerEmail = Some (js ''a@b.com''),
                   r_counterpartyAddress = None, r_friendName = Some (js ''Bob''),
                   r_friendEmail = Some (js ''bob@b.com'')\<rparr>"

definition alpha_ann :: alpha_data where
  "alpha_ann = \<lparr>a_name = Some (js ''Ann''), a_email = Some (js ''a@b.com''),
                a_github = Some (js ''ann-dev''), a_discovery = Some (js ''reddit''),
                a_motivation = Some (js ''I want to try the alpha build''),
                a_turnstileToken = None\<rparr>"

definition env_down :: env where
  "env_down = env_up\<lparr>net := (\<lambda>n. Resolves resp_failure)\<rparr>"

definition env_admin_rejects :: env where
  "env_admin_rejects = env_up\<lparr>net := (\<lambda>n. if n = 1 then Rejects else Resolves resp_success)\<rparr>"

definition waitlist_bare :: waitlist_data where
  "waitlist_bare = \<lparr>w_email = Some (js ''a@b.com''), w_name = None, w_type = None\<rparr>"

text \<open>
  The state in which the alpha handler finishes once the bot check has let the request
  through: the tail of its \<open>try\<close> block.
\<close>

definition alpha_finish :: "env \<Rightarrow> alpha_data \<Rightarrow> st \<Rightarrow> st" where
  "alpha_finish e b s1 =
     (let s2 = console Log ([0xD83C, 0xDF89] @ js '' NEW ALPHA SIGNUP:'') s1 in
      if truthy (SENDGRID_API_KEY e) then
        alpha_send_emails e (str (a_name b)) (str (a_email b)) (str (a_github b))
          (str (a_discovery b)) (str (a_motivation b)) s2
      else
        console Log (js ''SendGrid not configured - signup logged but no emails sent'') s2)"

section \<open>The referral code has the format of the specification\<close>

lemma digit36_upper:
  "list_all (\<lambda>d. in_class code_class (upper_unit (digit36 d))) [0..<36]"
  by code_simp

lemma digit36_code_class: "d < 36 \<Longrightarrow> in_class code_class (upper_unit (digit36 d))"
  using digit36_upper by (simp add: list_all_iff)

lemma toString36_nonempty: "toString36 n \<noteq> []"
  by (induction n rule: toString36.induct) (subst toString36.simps, simp)

lemma toString36_units: "c \<in> set (toString36 n) \<Longrightarrow> \<exists>d<36. c = digit36 d"
proof (induction n rule: toString36.induct)
  case (1 n)
  show ?case
  proof (cases "n < 36")
    case True
    with "1.prems" show ?thesis by (subst (asm) toString36.simps) auto
  next
    case False
    with "1.prems" have "c \<in> set (toString36 (n div 36)) \<or> c = digit36 (n mod 36)"
      by (subst (asm) toString36.simps) auto
    then show ?thesis
    proof
      assume "c \<in> set (toString36 (n div 36))"
      with "1.IH" False show ?thesis by simp
    next
      assume "c = digit36 (n mod 36)"
      moreover have "n mod 36 < 36" by simp
      ultimately show ?thesis by blast
    qed
  qed
qed

lemma toUpperCase_toString36: "list_all (in_class code_class) (toUpperCase (toString36 n))"
  by (auto simp: list_all_iff toUpperCase_def dest!: toString36_units intro: digit36_code_class)

text \<open>
  The accumulator of the hash stays an integer of bounded size: the model on \<open>int\<close> is
  the JavaScript computation for every email of fewer than \<open>2 ^ 21\<close> code units.
\<close>

lemma shl5_bound: "\<bar>shl5 a\<bar> \<le> 2 ^ 31"
proof -
  have "- (2 ^ 31) \<le> sint (push_bit 5 (word_of_int a :: 32 word))"
    using sint_ge [of "push_bit 5 (word_of_int a :: 32 word)"] by simp
  moreover have "sint (push_bit 5 (word_of_int a :: 32 word)) < 2 ^ 31"
    using sint_lt [of "push_bit 5 (word_of_int a :: 32 word)"] by simp
  ultimately show ?thesis by (simp add: shl5_def)
qed

lemma uint16_bound: "uint (c :: 16 word) < 65536"
  using uint_bounded [of c] by simp

lemma hash_step_bound: "\<bar>hash_step a x\<bar> \<le> \<bar>a\<bar> + (2 ^ 31 + 65535)"
proof -
  have 1: "\<bar>shl5 a\<bar> \<le> 2147483648" using shl5_bound [of a] by simp
  have 2: "uint x < 65536" by (rule uint16_bound)
  have 3: "0 \<le> uint x" by simp
  have "\<bar>shl5 a - a + uint x\<bar> \<le> \<bar>a\<bar> + 2147549183"
    using 1 2 3 by linarith
  then show ?thesis by (simp add: hash_step_def)
qed

lemma foldl_hash_bound:
  "\<bar>foldl hash_step a xs\<bar> \<le> \<bar>a\<bar> + int (length xs) * (2 ^ 31 + 65535)"
proof (induction xs arbitrary: a)
  case Nil
  show ?case by simp
next
  case (Cons x xs)
  from Cons.IH [of "hash_step a x"] hash_step_bound [of a x] show ?case
    by (simp add: algebra_simps)
qed

lemma hash_bound: "\<bar>hash email\<bar> \<le> int (length email) * (2 ^ 31 + 65535)"
  using foldl_hash_bound [of 0 email] by (simp add: hash_def)

lemma hash_exact: "length email < 2 ^ 21 \<Longrightarrow> \<bar>hash email\<bar> < 2 ^ 53"
proof -
  assume "length email < 2 ^ 21"
  then have "int (length email) \<le> 2097151" by simp
  then have "int (length email) * (2 ^ 31 + 65535) \<le> 2097151 * (2 ^ 31 + 65535)"
    by (rule mult_right_mono) simp
  with hash_bound [of email] show ?thesis by simp
qed

section \<open>Matching\<close>

lemma rep_numeral [simp]:
  "rep m lo (numeral k) p =
     concat (map (rep m (lo - 1) (pred_numeral k)) (m p)) @ (if lo = 0 then [p] else [])"
  by (simp add: numeral_eq_Suc)

lemma rep_single:
  assumes m: "\<And>i s. set (m (i, s)) = (if s \<noteq> [] \<and> ok s then {(Suc i, tl s)} else {})"
  shows "(j, []) \<in> set (rep m lo hi (i, s)) \<longleftrightarrow>
         (lo \<le> length s \<and> length s \<le> hi \<and> suffixes_ok ok s \<and> j = i + length s)"
proof (induction hi arbitrary: lo i s)
  case 0
  show ?case by auto
next
  case (Suc hi)
  show ?case
  proof (cases s)
    case Nil
    then show ?thesis using m [of i "[]"] by auto
  next
    case (Cons x xs)
    show ?thesis
    proof (cases "ok (x # xs)")
      case True
      with Cons have "set (m (i, s)) = {(Suc i, xs)}" using m [of i s] by simp
      then have "(j, []) \<in> set (rep m lo (Suc hi) (i, s)) \<longleftrightarrow>
                 (j, []) \<in> set (rep m (lo - 1) hi (Suc i, xs))"
        using Cons by auto
      also have "\<dots> \<longleftrightarrow> (lo - 1 \<le> length xs \<and> length xs \<le> hi \<and> suffixes_ok ok xs \<and> j = Suc i + length xs)"
        by (rule Suc.IH)
      finally show ?thesis using Cons True by auto
    next
      case False
      with Cons have "set (m (i, s)) = {}" using m [of i s] by simp
      then show ?thesis using Cons False by auto
    qed
  qed
qed

lemma rmatch_Class_set:
  "set (rmatch (Class rs) (i, s)) = (if s \<noteq> [] \<and> in_class rs (hd s) then {(Suc i, tl s)} else {})"
  by (cases s) auto

lemma suffixes_ok_hd: "suffixes_ok (\<lambda>s. P (hd s)) d = list_all P d"
  by (induction d) auto

lemma starts_fst: "p \<in> set (starts i s) \<Longrightarrow> i \<le> fst p"
  by (induction i s rule: starts.induct) auto

lemma starts_hd: "starts i s = (i, s) # tl (starts i s)"
  by (cases s) auto

lemma starts_tl: "p \<in> set (tl (starts i s)) \<Longrightarrow> Suc i \<le> fst p"
  by (cases s) (auto dest: starts_fst)

lemma test_Bol: "test (Seq Bol r) s \<longleftrightarrow> rmatch r (0, s) \<noteq> []"
proof -
  have "\<And>p. p \<in> set (tl (starts 0 s)) \<Longrightarrow> rmatch (Seq Bol r) p = []"
    by (drule starts_tl) simp
  then have "\<not> list_ex (\<lambda>p. rmatch (Seq Bol r) p \<noteq> []) (tl (starts 0 s))"
    by (auto simp: list_ex_iff)
  moreover have "test (Seq Bol r) s \<longleftrightarrow>
      rmatch (Seq Bol r) (0, s) \<noteq> [] \<or> list_ex (\<lambda>p. rmatch (Seq Bol r) p \<noteq> []) (tl (starts 0 s))"
    unfolding test_def by (subst starts_hd) simp
  ultimately show ?thesis by simp
qed

lemma concat_Eol: "concat (map (rmatch Eol) qs) = filter (\<lambda>q. snd q = []) qs"
  by (induction qs) auto

lemma rmatch_Rep_Eol:
  "rmatch (Seq (Rep r lo hi) Eol) p \<noteq> [] \<longleftrightarrow> (\<exists>j. (j, []) \<in> set (rep (rmatch r) lo hi p))"
proof -
  have "rmatch (Seq (Rep r lo hi) Eol) p = filter (\<lambda>q. snd q = []) (rep (rmatch r) lo hi p)"
    by (simp only: rmatch.simps concat_Eol)
  moreover have "(\<exists>q\<in>set (rep (rmatch r) lo hi p). snd q = []) \<longleftrightarrow>
                 (\<exists>j. (j, []) \<in> set (rep (rmatch r) lo hi p))"
    by force
  ultimately show ?thesis
    by (simp add: filter_empty_conv)
qed

lemma test_referralCodePattern:
  "test referralCodePattern (js ''NC-'' @ d) \<longleftrightarrow>
     (1 \<le> length d \<and> length d \<le> 6 \<and> list_all (in_class code_class) d)"
proof -
  have "test referralCodePattern (js ''NC-'' @ d) \<longleftrightarrow>
        rmatch (Seq (Rep (Class code_class) 1 6) Eol) (Suc (Suc (Suc 0)), d) \<noteq> []"
    unfolding referralCodePattern_def test_Bol code_class_def
    by (simp add: js_def u_def del: rmatch.simps(5,7) add: rmatch.simps(5) [of "Unit c" for c])
  also have "\<dots> \<longleftrightarrow> (\<exists>j. (j, []) \<in> set (rep (rmatch (Class code_class)) 1 6 (Suc (Suc (Suc 0)), d)))"
    by (rule rmatch_Rep_Eol)
  also have "\<dots> \<longleftrightarrow> (1 \<le> length d \<and> length d \<le> 6 \<and> list_all (in_class code_class) d)"
    by (simp only: rep_single [where ok = "\<lambda>s. in_class code_class (hd s)", OF rmatch_Class_set]
          suffixes_ok_hd) auto
  finally show ?thesis .
qed


lemma in_class_alnum: "in_class [(u CHR ''a'', u CHR ''z''), (u CHR ''A'', u CHR ''Z''), (u CHR ''0'', u CHR ''9'')] c = is_alnum c"
  by (simp add: in_class_def u_def is_alnum_def)

lemma rmatch_alnum: "rmatch alnum (i, s) = (case s of [] \<Rightarrow> [] | c # cs \<Rightarrow> if is_alnum c then [(Suc i, cs)] else [])"
  by (simp add: alnum_def in_class_alnum split: list.splits)

lemma not_alnum_hyphen: "\<not> is_alnum 45"
  by (simp add: is_alnum_def)

lemma rmatch_item:
  "set (rmatch (Alt alnum (Seq (Unit (u CHR ''-'')) (Ahead alnum))) (i, s)) =
     (if s \<noteq> [] \<and> item_ok s then {(Suc i, tl s)} else {})"
proof (cases s)
  case Nil
  then show ?thesis by (simp add: rmatch_alnum)
next
  case (Cons c cs)
  then show ?thesis
    by (cases cs) (auto simp: rmatch_alnum item_ok_def u_def not_alnum_hyphen)
qed

lemma test_githubPattern: "test githubPattern s = github_shape s"
proof (cases s)
  case Nil
  then show ?thesis
    by (simp add: githubPattern_def test_Bol github_shape_def rmatch_alnum del: rmatch.simps(7))
next
  case (Cons c cs)
  have "test githubPattern s \<longleftrightarrow>
        (is_alnum c \<and> rmatch (Seq (Rep (Alt alnum (Seq (Unit (u CHR ''-'')) (Ahead alnum))) 0 38) Eol) (Suc 0, cs) \<noteq> [])"
    unfolding githubPattern_def test_Bol Cons
    by (simp add: rmatch.simps(5) [of alnum] rmatch_alnum del: rmatch.simps)
  also have "\<dots> \<longleftrightarrow> (is_alnum c \<and> length cs \<le> 38 \<and> suffixes_ok item_ok cs)"
    by (simp only: rmatch_Rep_Eol rep_single [where ok = item_ok, OF rmatch_item]) auto
  finally show ?thesis by (simp add: github_shape_def Cons)
qed


section \<open>Claims about the referral code\<close>

text \<open>
  C6. Referral-code generation is a function of the referrer's email alone (it reads no
  state, no clock and no randomness, so the same email always yields the same code), and
  for every email the code matches \<^verbatim>\<open>^NC-[A-Z0-9]{1,6}$\<close>: the prefix \<open>NC-\<close>
  followed by the first (at most six) units of the upper-cased base-36 digits of the
  absolute value of the hash.
\<close>

theorem generateReferralCode_format:
  "test referralCodePattern (generateReferralCode email)
   \<and> take 3 (generateReferralCode email) = js ''NC-''
   \<and> 1 \<le> length (generateReferralCode email) - 3
   \<and> length (generateReferralCode email) - 3 \<le> 6"
proof -
  let ?d = "take 6 (toUpperCase (toString36 (nat \<bar>hash email\<bar>)))"
  have ne: "toUpperCase (toString36 (nat \<bar>hash email\<bar>)) \<noteq> []"
    by (simp add: toUpperCase_def toString36_nonempty)
  then have 1: "1 \<le> length ?d"
    by (cases "toUpperCase (toString36 (nat \<bar>hash email\<bar>))") simp_all
  have 2: "length ?d \<le> 6" by simp
  have "list_all (in_class code_class) (toUpperCase (toString36 (nat \<bar>hash email\<bar>)))"
    by (rule toUpperCase_toString36)
  then have 3: "list_all (in_class code_class) ?d"
    by (auto simp: list_all_iff dest: in_set_takeD)
  have "test referralCodePattern (js ''NC-'' @ ?d)"
    using 1 2 3 by (simp only: test_referralCodePattern)
  moreover have "length (js ''NC-'' @ ?d) - 3 = length ?d"
    by (simp add: js_def)
  moreover have "take 3 (js ''NC-'' @ ?d) = js ''NC-''"
    by (simp add: js_def)
  ultimately show ?thesis
    using 1 2 by (simp only: generateReferralCode_def)
qed

lemma hash_example: "hash (js ''a@b.co'') = - 1455867401"
  by (simp add: hash_def js_def hash_step_def shl5_def)

lemma toString36_example: "toString36 1455867401 = js ''o2sah5''"
  by (simp add: toString36.simps [of 1455867401] toString36.simps [of 40440761]
      toString36.simps [of 1123354] toString36.simps [of 31204] toString36.simps [of 866]
      toString36.simps [of 24] js_def digit36_def)

lemma generateReferralCode_example: "generateReferralCode (js ''a@b.co'') = js ''NC-O2SAH5''"
  by (simp add: generateReferralCode_def hash_example toString36_example toUpperCase_def)
     (simp add: js_def upper_unit_def)

theorem generateReferralCode_format_witness:
  "test referralCodePattern (generateReferralCode (js ''a@b.co''))
   \<and> generateReferralCode (js ''a@b.co'') = js ''NC-O2SAH5''"
  using generateReferralCode_format [of "js ''a@b.co''"] generateReferralCode_example
  by blast

section \<open>How the handlers run\<close>

lemma calls_console [simp]: "calls (console l x s) = calls s"
  by (simp add: console_def)

lemma logs_console [simp]: "logs (console l x s) = logs s @ [(l, x)]"
  by (simp add: console_def)

lemma calls_init [simp]: "calls init = []"
  by (simp add: init_def)

lemma method_POST: "js ''POST'' \<noteq> js ''OPTIONS''"
  by (simp add: js_def)

lemma list_all_prefix: "prefix xs ys \<Longrightarrow> list_all P ys \<Longrightarrow> list_all P xs"
  by (auto simp: prefix_def)

lemma filter_prefix_id: "prefix xs ys \<Longrightarrow> filter P ys = ys \<Longrightarrow> filter P xs = xs"
  by (auto simp: prefix_def filter_id_conv)

lemma hd_prefix: "prefix xs ys \<Longrightarrow> xs \<noteq> [] \<Longrightarrow> hd xs = hd ys"
  by (auto simp: prefix_def)

subsection \<open>Waitlist and referral\<close>

lemma waitlist_handler_POST:
  "req_method req = js ''POST'' \<Longrightarrow>
   waitlist_handler e req =
     (case waitlist_try e (req_body req) init of
        (Inr res, s) \<Rightarrow> (res, s)
      | (Inl error, s) \<Rightarrow>
          (json 500 (Error (js ''Failed to process signup'')), console Err (js ''Waitlist error:'') s))"
  by (simp add: waitlist_handler_def method_POST)

lemma referral_handler_POST:
  "req_method req = js ''POST'' \<Longrightarrow>
   referral_handler e req =
     (case referral_try e (req_body req) init of
        (Inr res, s) \<Rightarrow> (res, s)
      | (Inl error, s) \<Rightarrow>
          (json 500 (Error (js ''Failed to process referral'')), console Err (js ''Referral error:'') s))"
  by (simp add: referral_handler_def method_POST)

lemma waitlist_critical:
  assumes "truthy (SENDGRID_API_KEY e)" "net e 0 = Resolves r" "\<not> resp_ok r"
    "req_method req = js ''POST''" "waitlist_valid (req_body req)"
  shows "fst (waitlist_handler e req) = json 500 (Error (js ''Failed to process signup''))"
    and "calls (snd (waitlist_handler e req)) = [hd (waitlist_jobs e (req_body req))]"
  using assms
  by (simp_all add: waitlist_handler_POST waitlist_try_def waitlist_valid_def fetch_def
      waitlist_jobs_def Let_def split: option.splits)

lemma referral_critical:
  assumes "truthy (SENDGRID_API_KEY e)" "net e 0 = Resolves r" "\<not> resp_ok r"
    "req_method req = js ''POST''" "referral_fields_ok (req_body req)"
    "\<not> self_referral e (req_body req)"
  shows "fst (referral_handler e req) = json 500 (Error (js ''Failed to process referral''))"
    and "calls (snd (referral_handler e req)) = [hd (referral_jobs e (req_body req))]"
  using assms
  by (simp_all add: referral_handler_POST referral_try_def referral_fields_ok_def
      self_referral_def fetch_def referral_jobs_def Let_def split: option.splits)

lemma waitlist_calls:
  assumes "truthy (SENDGRID_API_KEY e)" "req_method req = js ''POST''" "waitlist_valid (req_body req)"
  shows "calls (snd (waitlist_handler e req)) \<noteq> []"
    and "prefix (calls (snd (waitlist_handler e req))) (waitlist_jobs e (req_body req))"
    and "all_ok e \<Longrightarrow> calls (snd (waitlist_handler e req)) = waitlist_jobs e (req_body req)"
    and "all_ok e \<Longrightarrow> fst (waitlist_handler e req) = json 200 (Success (js ''Successfully joined the waitlist!''))"
    and "status (fst (waitlist_handler e req)) \<noteq> 400"
proof -
  show "calls (snd (waitlist_handler e req)) \<noteq> []"
    using assms
    by (simp add: waitlist_handler_POST waitlist_try_def waitlist_valid_def fetch_def
      waitlist_addToContactList_def Let_def split: option.splits fetch_outcome.splits)
  show "prefix (calls (snd (waitlist_handler e req))) (waitlist_jobs e (req_body req))"
    using assms
    by (simp add: waitlist_handler_POST waitlist_try_def waitlist_valid_def fetch_def
      waitlist_addToContactList_def waitlist_jobs_def Let_def split: option.splits fetch_outcome.splits)
  show "status (fst (waitlist_handler e req)) \<noteq> 400"
    using assms
    by (simp add: waitlist_handler_POST waitlist_try_def waitlist_valid_def fetch_def json_def
      waitlist_addToContactList_def Let_def split: option.splits fetch_outcome.splits)
  assume "all_ok e"
  then obtain r0 r1 r2 where "net e 0 = Resolves r0" "resp_ok r0" "net e (Suc 0) = Resolves r1" "resp_ok r1"
     "net e (Suc (Suc 0)) = Resolves r2"
    unfolding all_ok_def by metis
  with assms show "calls (snd (waitlist_handler e req)) = waitlist_jobs e (req_body req)"
    and "fst (waitlist_handler e req) = json 200 (Success (js ''Successfully joined the waitlist!''))"
    by (simp_all add: waitlist_handler_POST waitlist_try_def waitlist_valid_def fetch_def
      waitlist_addToContactList_def waitlist_jobs_def Let_def)
qed

lemma referral_calls:
  assumes "truthy (SENDGRID_API_KEY e)" "req_method req = js ''POST''"
    "referral_fields_ok (req_body req)" "\<not> self_referral e (req_body req)"
  shows "calls (snd (referral_handler e req)) \<noteq> []"
    and "prefix (calls (snd (referral_handler e req))) (referral_jobs e (req_body req))"
    and "all_ok e \<Longrightarrow> calls (snd (referral_handler e req)) = referral_jobs e (req_body req)"
proof -
  show "calls (snd (referral_handler e req)) \<noteq> []"
    using assms
    by (simp add: referral_handler_POST referral_try_def referral_fields_ok_def self_referral_def
      fetch_def addReferralContacts_def Let_def split: option.splits fetch_outcome.splits)
  show "prefix (calls (snd (referral_handler e req))) (referral_jobs e (req_body req))"
    using assms
    by (simp add: referral_handler_POST referral_try_def referral_fields_ok_def self_referral_def
      fetch_def addReferralContacts_def referral_jobs_def Let_def
      split: option.splits fetch_outcome.splits)
  assume "all_ok e"
  then obtain r0 r1 r2 r3 where "net e 0 = Resolves r0" "resp_ok r0"
     "net e (Suc 0) = Resolves r1" "resp_ok r1"
     "net e (Suc (Suc 0)) = Resolves r2" "resp_ok r2"
     "net e (Suc (Suc (Suc 0))) = Resolves r3"
    unfolding all_ok_def by metis
  with assms show "calls (snd (referral_handler e req)) = referral_jobs e (req_body req)"
    by (simp add: referral_handler_POST referral_try_def referral_fields_ok_def self_referral_def
      fetch_def addReferralContacts_def referral_jobs_def Let_def)
qed

subsection \<open>Alpha signup\<close>

lemma alpha_jobs_no_SiteVerify: "filter (\<lambda>c. \<not> is_SiteVerify c) (alpha_jobs e b) = alpha_jobs e b"
  by (simp add: alpha_jobs_def alpha_contacts_def)

lemma alpha_send_emails_calls:
  "\<exists>cs. cs \<noteq> [] \<and> calls (alpha_send_emails e n m g d mo s) = calls s @ cs \<and>
     prefix cs [MailSend (str (SENDGRID_API_KEY e)) (alpha_admin_mail n m g d mo),
        MailSend (str (SENDGRID_API_KEY e)) (alpha_user_mail n m g),
        alpha_contacts e n m g d]"
  by (simp add: alpha_send_emails_def sendAdminNotification_def sendUserConfirmation_def
        alpha_addToContactList_def fetch_def split: fetch_outcome.splits)

lemma alpha_send_emails_all_ok:
  assumes "all_ok e"
  shows "calls (alpha_send_emails e n m g d mo s) = calls s @
     [MailSend (str (SENDGRID_API_KEY e)) (alpha_admin_mail n m g d mo),
        MailSend (str (SENDGRID_API_KEY e)) (alpha_user_mail n m g),
        alpha_contacts e n m g d]"
proof -
  from assms obtain r0 r1 r2 where "net e (length (calls s)) = Resolves r0"
    "net e (Suc (length (calls s))) = Resolves r1" "net e (Suc (Suc (length (calls s)))) = Resolves r2"
    unfolding all_ok_def by metis
  then show ?thesis
    by (simp add: alpha_send_emails_def sendAdminNotification_def sendUserConfirmation_def
        alpha_addToContactList_def fetch_def)
qed

lemma alpha_handler_valid:
  assumes "req_method req = js ''POST''" "alpha_fields_ok (req_body req)"
    "test githubPattern (str (a_github (req_body req)))"
  shows "alpha_handler e req =
     (case (if truthy (TURNSTILE_SECRET_KEY e) \<and> truthy (a_turnstileToken (req_body req))
               then verifyTurnstile e (str (a_turnstileToken (req_body req))) init
               else (True, init)) of
           (False, s1) \<Rightarrow>
             (json 400 (Error (js ''Bot verification failed. Please try again.'')), s1)
         | (True, s1) \<Rightarrow>
             (json 200 (Success (js ''Alpha access request submitted!'')),
              alpha_finish e (req_body req) s1))"
  using assms
  by (simp add: alpha_handler_def alpha_try_def alpha_fields_ok_def alpha_finish_def method_POST
      split: prod.splits bool.splits)

lemma alpha_handler_invalid_github:
  assumes "req_method req = js ''POST''" "alpha_fields_ok (req_body req)"
    "\<not> test githubPattern (str (a_github (req_body req)))"
  shows "alpha_handler e req = (json 400 (Error (js ''Invalid GitHub username format'')), init)"
  using assms
  by (simp add: alpha_handler_def alpha_try_def alpha_fields_ok_def method_POST)

lemma other_answers:
  "json 400 (Error (js ''Bot verification failed. Please try again.'')) \<noteq>
     json 400 (Error (js ''Invalid GitHub username format''))"
  "json 200 b \<noteq> json 400 c"
  by (simp_all add: json_def js_def)

lemma verifyTurnstile_calls:
  "truthy (TURNSTILE_SECRET_KEY e) \<Longrightarrow>
   calls (snd (verifyTurnstile e token s)) = calls s @ [SiteVerify (str (TURNSTILE_SECRET_KEY e)) token None]"
  by (simp add: verifyTurnstile_def fetch_def split: fetch_outcome.splits option.splits)

lemma alpha_calls:
  assumes "truthy (SENDGRID_API_KEY e)" "req_method req = js ''POST''"
    "alpha_fields_ok (req_body req)" "test githubPattern (str (a_github (req_body req)))"
    "bot_check_passes e (req_body req)"
  shows "filter (\<lambda>c. \<not> is_SiteVerify c) (calls (snd (alpha_handler e req))) \<noteq> []"
    and "prefix (filter (\<lambda>c. \<not> is_SiteVerify c) (calls (snd (alpha_handler e req))))
           (alpha_jobs e (req_body req))"
    and "all_ok e \<Longrightarrow> filter (\<lambda>c. \<not> is_SiteVerify c) (calls (snd (alpha_handler e req)))
           = alpha_jobs e (req_body req)"
    and "fst (alpha_handler e req) = json 200 (Success (js ''Alpha access request submitted!''))"
proof -
  let ?b = "req_body req"
  let ?v = "if truthy (TURNSTILE_SECRET_KEY e) \<and> truthy (a_turnstileToken ?b)
               then verifyTurnstile e (str (a_turnstileToken ?b)) init
               else (True, init)"
  have v: "fst ?v" using assms(5) by (simp add: bot_check_passes_def)
  have h: "alpha_handler e req =
      (json 200 (Success (js ''Alpha access request submitted!'')), alpha_finish e ?b (snd ?v))"
  proof -
    obtain ok s1 where vs: "?v = (ok, s1)" by (cases ?v)
    with v have "ok" by simp
    with vs show ?thesis
      by (simp only: alpha_handler_valid [OF assms(2,3,4)]) simp
  qed
  have sv: "filter (\<lambda>c. \<not> is_SiteVerify c) (calls (snd ?v)) = []"
    by (simp add: verifyTurnstile_calls)
  obtain cs where cs: "cs \<noteq> []"
      "calls (alpha_finish e ?b (snd ?v)) = calls (snd ?v) @ cs"
      "prefix cs (alpha_jobs e ?b)"
    using alpha_send_emails_calls [of e "str (a_name ?b)" "str (a_email ?b)" "str (a_github ?b)"
        "str (a_discovery ?b)" "str (a_motivation ?b)"
        "console Log ([0xD83C, 0xDF89] @ js '' NEW ALPHA SIGNUP:'') (snd ?v)"] assms(1)
    unfolding alpha_jobs_def alpha_finish_def Let_def by auto
  have f: "filter (\<lambda>c. \<not> is_SiteVerify c) cs = cs"
    using cs(3) alpha_jobs_no_SiteVerify by (rule filter_prefix_id)
  have c: "filter (\<lambda>c. \<not> is_SiteVerify c) (calls (snd (alpha_handler e req))) = cs"
    by (simp only: h snd_conv cs(2) filter_append sv f) simp
  show "filter (\<lambda>c. \<not> is_SiteVerify c) (calls (snd (alpha_handler e req))) \<noteq> []"
    using c cs(1) by simp
  show "prefix (filter (\<lambda>c. \<not> is_SiteVerify c) (calls (snd (alpha_handler e req))))
           (alpha_jobs e (req_body req))"
    using c cs(3) by simp
  show "fst (alpha_handler e req) = json 200 (Success (js ''Alpha access request submitted!''))"
    by (simp only: h fst_conv)
  assume "all_ok e"
  then have "calls (alpha_finish e ?b (snd ?v)) = calls (snd ?v) @ alpha_jobs e ?b"
    using assms(1) by (simp add: alpha_finish_def alpha_send_emails_all_ok alpha_jobs_def)
  with cs(2) have "cs = alpha_jobs e ?b" by simp
  with c show "filter (\<lambda>c. \<not> is_SiteVerify c) (calls (snd (alpha_handler e req)))
           = alpha_jobs e (req_body req)" by simp
qed

section \<open>Facts about the example inputs\<close>

lemma github_ann: "test githubPattern (js ''ann-dev'')"
  by code_simp

lemma post_simps [simp]: "req_method (post b) = js ''POST''" "req_body (post b) = b"
  by (simp_all add: post_def)

lemma waitlist_ann_valid: "waitlist_valid waitlist_ann"
  by (simp add: waitlist_valid_def waitlist_ann_def includes_unit_def at_sign_def js_def)

lemma referral_ann_fields_ok: "referral_fields_ok referral_ann"
  by (simp add: referral_fields_ok_def referral_ann_def includes_unit_def at_sign_def js_def)

lemma referral_ann_not_self: "\<not> self_referral (env_up\<lparr>SENDGRID_API_KEY := k, net := n\<rparr>) referral_ann"
  by (simp add: self_referral_def referral_ann_def env_up_def lower_unit_def js_def)

lemma alpha_ann_fields_ok: "truthy g \<Longrightarrow> alpha_fields_ok (alpha_ann\<lparr>a_github := g\<rparr>)"
  by (simp add: alpha_fields_ok_def alpha_ann_def includes_unit_def at_sign_def js_def)

lemma alpha_ann_github: "str (a_github alpha_ann) = js ''ann-dev''"
  by (simp add: alpha_ann_def)

lemma alpha_ann_no_token: "bot_check_passes e (alpha_ann\<lparr>a_github := g\<rparr>)"
  by (simp add: bot_check_passes_def alpha_ann_def)

lemma all_ok_env_up: "all_ok (env_up\<lparr>TURNSTILE_SECRET_KEY := k\<rparr>)"
  by (simp add: all_ok_def env_up_def resp_success_def)

lemma env_up_key: "truthy (SENDGRID_API_KEY env_up)" "str (SENDGRID_API_KEY env_up) = js ''SG.key''"
  by (simp_all add: env_up_def js_def)

lemma env_down_simps:
  "truthy (SENDGRID_API_KEY env_down)" "str (SENDGRID_API_KEY env_down) = js ''SG.key''"
  "net env_down n = Resolves resp_failure" "\<not> resp_ok resp_failure"
  "TURNSTILE_SECRET_KEY env_down = None"
  by (simp_all add: env_down_def env_up_def js_def resp_failure_def)

section \<open>Claims about the bot verifier\<close>

text \<open>
  C4. For every call of the bot verifier \<open>verifyTurnstileToken\<close> with the secret
  configured and the token empty or absent, the result is false and no network call is
  made: the list of outbound calls is unchanged, and one line is logged.
\<close>

theorem verifyTurnstileToken_no_token:
  assumes "truthy secretKey" and "\<not> truthy token"
  shows "fst (verifyTurnstileToken e token secretKey remoteip s) = False
         \<and> calls (snd (verifyTurnstileToken e token secretKey remoteip s)) = calls s
         \<and> logs (snd (verifyTurnstileToken e token secretKey remoteip s))
             = logs s @ [(Log, js ''No Turnstile token provided'')]"
  using assms by (simp add: verifyTurnstileToken_def console_def)

theorem verifyTurnstileToken_no_token_witness:
  "truthy (Some (js ''secret'')) \<and> \<not> truthy (Some []) \<and> \<not> truthy None
   \<and> fst (verifyTurnstileToken env_up (Some []) (Some (js ''secret'')) None init) = False
   \<and> calls (snd (verifyTurnstileToken env_up None (Some (js ''secret'')) None init)) = []"
  using verifyTurnstileToken_no_token [of "Some (js ''secret'')" "Some []" env_up None init]
    verifyTurnstileToken_no_token [of "Some (js ''secret'')" None env_up None init]
  by (simp add: js_def init_def)

text \<open>
  The private \<open>verifyTurnstile\<close> of the alpha-signup module has no check of the token,
  but the handler calls it under the guard \<open>TURNSTILE_SECRET_KEY && turnstileToken\<close>
  only: no request with an absent or empty token leads to a verification call.
\<close>

lemma alpha_no_SiteVerify_without_token:
  assumes "\<not> truthy (a_turnstileToken (req_body req))"
  shows "list_all (\<lambda>c. \<not> is_SiteVerify c) (calls (snd (alpha_handler e req)))"
proof -
  have f: "list_all (\<lambda>c. \<not> is_SiteVerify c) (calls (alpha_finish e b init))" for b
  proof (cases "truthy (SENDGRID_API_KEY e)")
    case True
    obtain cs where cs: "calls (alpha_finish e b init) = cs" "prefix cs (alpha_jobs e b)"
      using alpha_send_emails_calls [of e "str (a_name b)" "str (a_email b)" "str (a_github b)"
        "str (a_discovery b)" "str (a_motivation b)"
        "console Log ([0xD83C, 0xDF89] @ js '' NEW ALPHA SIGNUP:'') init"] True
      unfolding alpha_jobs_def alpha_finish_def Let_def by auto
    have "filter (\<lambda>c. \<not> is_SiteVerify c) cs = cs"
      using cs(2) alpha_jobs_no_SiteVerify by (rule filter_prefix_id)
    then show ?thesis by (simp add: cs(1) filter_id_conv list_all_iff)
  next
    case False
    then show ?thesis by (simp add: alpha_finish_def)
  qed
  have t: "alpha_try e (req_body req) init = (Inr r, s) \<Longrightarrow>
      s = init \<or> s = alpha_finish e (req_body req) init" for r s
    using assms by (auto simp: alpha_try_def alpha_finish_def Let_def split: if_splits)
  have n: "alpha_try e (req_body req) init \<noteq> (Inl x, s)" for x s
    using assms by (auto simp: alpha_try_def split: if_splits)
  show ?thesis
  proof (cases "alpha_try e (req_body req) init")
    case (Pair r s)
    show ?thesis
    proof (cases r)
      case (Inl x)
      with Pair n show ?thesis by simp
    next
      case (Inr res)
      with Pair t have "s = init \<or> s = alpha_finish e (req_body req) init" by simp
      with Pair Inr f [of "req_body req"] show ?thesis
        by (auto simp: alpha_handler_def)
    qed
  qed
qed

section \<open>Claims about validation\<close>

text \<open>
  C7. For every referral submission whose required fields are present, whose two emails
  contain \<open>@\<close>, and whose referrer and friend emails are equal after \<open>toLowerCase\<close>, the
  handler answers 400 with the error \<open>You cannot refer yourself\<close> and makes no outbound
  call.
\<close>

theorem referral_self_referral:
  assumes "req_method req = js ''POST''"
    and "referral_fields_ok (req_body req)"
    and "self_referral e (req_body req)"
  shows "fst (referral_handler e req) = json 400 (Error (js ''You cannot refer yourself''))
         \<and> calls (snd (referral_handler e req)) = []"
  using assms
  by (simp add: referral_handler_def referral_try_def referral_fields_ok_def self_referral_def
      init_def js_def)

theorem referral_self_referral_witness:
  "req_method (post (referral_ann\<lparr>r_friendEmail := Some (js ''A@B.com'')\<rparr>)) = js ''POST''
   \<and> referral_fields_ok (referral_ann\<lparr>r_friendEmail := Some (js ''A@B.com'')\<rparr>)
   \<and> self_referral env_up (referral_ann\<lparr>r_friendEmail := Some (js ''A@B.com'')\<rparr>)
   \<and> fst (referral_handler env_up (post (referral_ann\<lparr>r_friendEmail := Some (js ''A@B.com'')\<rparr>)))
       = json 400 (Error (js ''You cannot refer yourself''))
   \<and> calls (snd (referral_handler env_up
        (post (referral_ann\<lparr>r_friendEmail := Some (js ''A@B.com'')\<rparr>)))) = []"
proof -
  let ?b = "referral_ann\<lparr>r_friendEmail := Some (js ''A@B.com'')\<rparr>"
  have 1: "req_method (post ?b) = js ''POST''" by (simp add: post_def)
  have 2: "referral_fields_ok (req_body (post ?b))"
    by (simp add: post_def referral_fields_ok_def referral_ann_def includes_unit_def at_sign_def js_def)
  have 3: "self_referral env_up (req_body (post ?b))"
    by (simp add: post_def self_referral_def referral_ann_def env_up_def lower_unit_def js_def)
  from referral_self_referral [OF 1 2 3] 1 2 3 show ?thesis
    by (simp add: post_def)
qed

section \<open>Claims about the configuration\<close>

text \<open>
  C3. When the email-service API key is not configured: a valid waitlist or referral
  submission gets the status 500 with the error \<open>Email service not configured\<close> before
  any outbound call; a valid alpha signup whose bot check passes is logged and gets the
  status 200 with the success body, and no call to the email service is made.
\<close>

theorem unconfigured_email_service:
  assumes "\<not> truthy (SENDGRID_API_KEY e)"
  shows "(req_method wreq = js ''POST'' \<and> waitlist_valid (req_body wreq) \<longrightarrow>
            fst (waitlist_handler e wreq) = json 500 (Error (js ''Email service not configured''))
            \<and> calls (snd (waitlist_handler e wreq)) = [])
       \<and> (req_method rreq = js ''POST'' \<and> referral_fields_ok (req_body rreq)
            \<and> \<not> self_referral e (req_body rreq) \<longrightarrow>
            fst (referral_handler e rreq) = json 500 (Error (js ''Email service not configured''))
            \<and> calls (snd (referral_handler e rreq)) = [])
       \<and> (req_method areq = js ''POST'' \<and> alpha_fields_ok (req_body areq)
            \<and> test githubPattern (str (a_github (req_body areq)))
            \<and> bot_check_passes e (req_body areq) \<longrightarrow>
            fst (alpha_handler e areq) = json 200 (Success (js ''Alpha access request submitted!''))
            \<and> list_all is_SiteVerify (calls (snd (alpha_handler e areq)))
            \<and> (Log, [0xD83C, 0xDF89] @ js '' NEW ALPHA SIGNUP:'') \<in> set (logs (snd (alpha_handler e areq)))
            \<and> (Log, js ''SendGrid not configured - signup logged but no emails sent'')
                 \<in> set (logs (snd (alpha_handler e areq))))"
proof (intro conjI impI)
  assume "req_method wreq = js ''POST'' \<and> waitlist_valid (req_body wreq)"
  with assms show "fst (waitlist_handler e wreq) = json 500 (Error (js ''Email service not configured''))"
    and "calls (snd (waitlist_handler e wreq)) = []"
    by (simp_all add: waitlist_handler_def waitlist_try_def waitlist_valid_def init_def console_def js_def)
next
  assume "req_method rreq = js ''POST'' \<and> referral_fields_ok (req_body rreq)
            \<and> \<not> self_referral e (req_body rreq)"
  with assms show "fst (referral_handler e rreq) = json 500 (Error (js ''Email service not configured''))"
    and "calls (snd (referral_handler e rreq)) = []"
    by (simp_all add: referral_handler_def referral_try_def referral_fields_ok_def
        self_referral_def init_def console_def js_def)
next
  assume a: "req_method areq = js ''POST'' \<and> alpha_fields_ok (req_body areq)
            \<and> test githubPattern (str (a_github (req_body areq)))
            \<and> bot_check_passes e (req_body areq)"
  show "fst (alpha_handler e areq) = json 200 (Success (js ''Alpha access request submitted!''))"
    using a assms
    by (auto simp: alpha_handler_def alpha_try_def alpha_fields_ok_def bot_check_passes_def
        js_def split: prod.splits bool.splits)
  show "list_all is_SiteVerify (calls (snd (alpha_handler e areq)))"
    using a assms
    by (auto simp: alpha_handler_def alpha_try_def alpha_fields_ok_def bot_check_passes_def
        verifyTurnstile_def fetch_def console_def init_def
        js_def split: prod.splits bool.splits fetch_outcome.splits option.splits if_splits)
  show "(Log, [0xD83C, 0xDF89] @ js '' NEW ALPHA SIGNUP:'') \<in> set (logs (snd (alpha_handler e areq)))"
    using a assms
    by (auto simp: alpha_handler_def alpha_try_def alpha_fields_ok_def bot_check_passes_def
        console_def
        js_def split: prod.splits bool.splits)
  show "(Log, js ''SendGrid not configured - signup logged but no emails sent'')
                 \<in> set (logs (snd (alpha_handler e areq)))"
    using a assms
    by (auto simp: alpha_handler_def alpha_try_def alpha_fields_ok_def bot_check_passes_def
        console_def
        js_def split: prod.splits bool.splits)
qed

theorem unconfigured_email_service_witness:
  "\<not> truthy (SENDGRID_API_KEY (env_up\<lparr>SENDGRID_API_KEY := None\<rparr>))
   \<and> waitlist_valid waitlist_ann
   \<and> referral_fields_ok referral_ann
   \<and> \<not> self_referral (env_up\<lparr>SENDGRID_API_KEY := None\<rparr>) referral_ann
   \<and> alpha_fields_ok alpha_ann
   \<and> test githubPattern (str (a_github alpha_ann))
   \<and> bot_check_passes (env_up\<lparr>SENDGRID_API_KEY := None\<rparr>) alpha_ann
   \<and> fst (waitlist_handler (env_up\<lparr>SENDGRID_API_KEY := None\<rparr>) (post waitlist_ann))
       = json 500 (Error (js ''Email service not configured''))
   \<and> fst (referral_handler (env_up\<lparr>SENDGRID_API_KEY := None\<rparr>) (post referral_ann))
       = json 500 (Error (js ''Email service not configured''))
   \<and> fst (alpha_handler (env_up\<lparr>SENDGRID_API_KEY := None\<rparr>) (post alpha_ann))
       = json 200 (Success (js ''Alpha access request submitted!''))
   \<and> calls (snd (alpha_handler (env_up\<lparr>SENDGRID_API_KEY := None\<rparr>) (post alpha_ann))) = []"
proof -
  let ?e = "env_up\<lparr>SENDGRID_API_KEY := None\<rparr>"
  have k: "\<not> truthy (SENDGRID_API_KEY ?e)" by simp
  have r: "\<not> self_referral ?e referral_ann"
    using referral_ann_not_self [where k = None and n = "net env_up"] by simp
  have f: "alpha_fields_ok alpha_ann"
    using alpha_ann_fields_ok [of "a_github alpha_ann"] by (simp add: alpha_ann_def js_def)
  have g: "test githubPattern (str (a_github alpha_ann))"
    by (simp only: alpha_ann_github github_ann)
  have b: "bot_check_passes ?e alpha_ann"
    using alpha_ann_no_token [of ?e "a_github alpha_ann"] by simp
  have c: "calls (snd (alpha_handler ?e (post alpha_ann))) = []"
    using f g
    by (simp add: alpha_handler_def alpha_try_def alpha_fields_ok_def alpha_ann_def
        console_def init_def)
  from unconfigured_email_service [OF k, of "post waitlist_ann" "post referral_ann" "post alpha_ann"]
    k waitlist_ann_valid referral_ann_fields_ok r f g b c
  show ?thesis by simp
qed

section \<open>Claims about the alpha-signup handler\<close>

text \<open>
  C9. In the alpha-signup handler, when the bot-verification secret is configured but
  the request carries no \<open>turnstileToken\<close> (absent or empty), the bot check is skipped:
  no verification call is made, the request goes on to the dispatch (whose calls are the
  only outbound calls) and the answer is 200 with the success body.
\<close>

theorem alpha_bot_check_skipped:
  assumes "req_method req = js ''POST''"
    and "alpha_fields_ok (req_body req)"
    and "test githubPattern (str (a_github (req_body req)))"
    and "truthy (TURNSTILE_SECRET_KEY e)"
    and "\<not> truthy (a_turnstileToken (req_body req))"
  shows "fst (alpha_handler e req) = json 200 (Success (js ''Alpha access request submitted!''))
         \<and> list_all (\<lambda>c. \<not> is_SiteVerify c) (calls (snd (alpha_handler e req)))
         \<and> (if truthy (SENDGRID_API_KEY e)
             then calls (snd (alpha_handler e req)) \<noteq> []
                  \<and> prefix (calls (snd (alpha_handler e req))) (alpha_jobs e (req_body req))
             else calls (snd (alpha_handler e req)) = [])"
proof -
  let ?b = "req_body req"
  have h: "alpha_handler e req =
      (json 200 (Success (js ''Alpha access request submitted!'')), alpha_finish e ?b init)"
    using assms(5) by (simp add: alpha_handler_valid [OF assms(1,2,3)])
  show ?thesis
  proof (cases "truthy (SENDGRID_API_KEY e)")
    case True
    obtain cs where cs: "cs \<noteq> []"
      "calls (alpha_finish e ?b init) = cs" "prefix cs (alpha_jobs e ?b)"
      using alpha_send_emails_calls [of e "str (a_name ?b)" "str (a_email ?b)" "str (a_github ?b)"
        "str (a_discovery ?b)" "str (a_motivation ?b)"
        "console Log ([0xD83C, 0xDF89] @ js '' NEW ALPHA SIGNUP:'') init"] True
      unfolding alpha_jobs_def alpha_finish_def Let_def by auto
    have "filter (\<lambda>c. \<not> is_SiteVerify c) cs = cs"
      using cs(3) alpha_jobs_no_SiteVerify by (rule filter_prefix_id)
    then have "list_all (\<lambda>c. \<not> is_SiteVerify c) cs"
      by (simp add: filter_id_conv list_all_iff)
    with True cs show ?thesis by (simp only: h fst_conv snd_conv) simp
  next
    case False
    then have "calls (alpha_finish e ?b init) = []"
      by (simp add: alpha_finish_def)
    with False show ?thesis by (simp only: h fst_conv snd_conv) simp
  qed
qed

theorem alpha_bot_check_skipped_witness:
  "req_method (post alpha_ann) = js ''POST''
   \<and> alpha_fields_ok alpha_ann
   \<and> test githubPattern (str (a_github alpha_ann))
   \<and> truthy (TURNSTILE_SECRET_KEY (env_up\<lparr>TURNSTILE_SECRET_KEY := Some (js ''secret'')\<rparr>))
   \<and> \<not> truthy (a_turnstileToken alpha_ann)
   \<and> fst (alpha_handler (env_up\<lparr>TURNSTILE_SECRET_KEY := Some (js ''secret'')\<rparr>) (post alpha_ann))
       = json 200 (Success (js ''Alpha access request submitted!''))
   \<and> list_all (\<lambda>c. \<not> is_SiteVerify c)
       (calls (snd (alpha_handler (env_up\<lparr>TURNSTILE_SECRET_KEY := Some (js ''secret'')\<rparr>)
          (post alpha_ann))))"
proof -
  let ?e = "env_up\<lparr>TURNSTILE_SECRET_KEY := Some (js ''secret'')\<rparr>"
  have 1: "req_method (post alpha_ann) = js ''POST''" by simp
  have 2: "alpha_fields_ok (req_body (post alpha_ann))"
    using alpha_ann_fields_ok [of "a_github alpha_ann"] by (simp add: alpha_ann_def js_def)
  have 3: "test githubPattern (str (a_github (req_body (post alpha_ann))))"
    by (simp add: alpha_ann_github github_ann)
  have 4: "truthy (TURNSTILE_SECRET_KEY ?e)" by (simp add: js_def)
  have 5: "\<not> truthy (a_turnstileToken (req_body (post alpha_ann)))"
    by (simp add: alpha_ann_def)
  from alpha_bot_check_skipped [OF 1 2 3 4 5] 1 2 3 4 5 show ?thesis by simp
qed

text \<open>
  C5 (as the code has it). For every alpha signup that passes the earlier checks, the
  handler answers 400 with the error \<open>Invalid GitHub username format\<close> exactly when the
  handle does not match the pattern of the source,
  \<^verbatim>\<open>^[a-zA-Z0-9](?:[a-zA-Z0-9]|-(?=[a-zA-Z0-9])){0,38}$\<close>: one alphanumeric unit, then
  at most 38 units, each alphanumeric or a hyphen directly followed by an alphanumeric
  unit (so a handle cannot end with a hyphen).
\<close>

theorem alpha_github_validation:
  assumes "req_method req = js ''POST''" and "alpha_fields_ok (req_body req)"
  shows "(fst (alpha_handler e req) = json 400 (Error (js ''Invalid GitHub username format''))
          \<longleftrightarrow> \<not> test githubPattern (str (a_github (req_body req))))
         \<and> test githubPattern (str (a_github (req_body req)))
             = github_shape (str (a_github (req_body req)))"
proof (cases "test githubPattern (str (a_github (req_body req)))")
  case True
  with assms have "fst (alpha_handler e req) \<noteq> json 400 (Error (js ''Invalid GitHub username format''))"
    by (simp add: alpha_handler_valid other_answers split: prod.splits bool.splits)
  with True show ?thesis by (simp add: test_githubPattern)
next
  case False
  with assms have "fst (alpha_handler e req) = json 400 (Error (js ''Invalid GitHub username format''))"
    by (simp add: alpha_handler_invalid_github)
  with False show ?thesis by (simp add: test_githubPattern)
qed

theorem alpha_github_validation_witness:
  "req_method (post (alpha_ann\<lparr>a_github := Some (js ''bad_name!'')\<rparr>)) = js ''POST''
   \<and> alpha_fields_ok (alpha_ann\<lparr>a_github := Some (js ''bad_name!'')\<rparr>)
   \<and> \<not> github_shape (js ''bad_name!'')
   \<and> fst (alpha_handler env_up (post (alpha_ann\<lparr>a_github := Some (js ''bad_name!'')\<rparr>)))
       = json 400 (Error (js ''Invalid GitHub username format''))"
proof -
  let ?b = "alpha_ann\<lparr>a_github := Some (js ''bad_name!'')\<rparr>"
  have 1: "req_method (post ?b) = js ''POST''" by simp
  have 2: "alpha_fields_ok (req_body (post ?b))"
    using alpha_ann_fields_ok [of "Some (js ''bad_name!'')"] by (simp add: js_def)
  have 3: "\<not> github_shape (js ''bad_name!'')"
    by code_simp
  from alpha_github_validation [OF 1 2, of env_up] 1 2 3 show ?thesis by simp
qed

text \<open>
  The handle \<open>a-\<close> matches the pattern of the specification and is rejected by the
  handler.
\<close>

theorem alpha_github_trailing_hyphen:
  "test spec_githubPattern (js ''a-'')
   \<and> fst (alpha_handler env_up (post (alpha_ann\<lparr>a_github := Some (js ''a-'')\<rparr>)))
       = json 400 (Error (js ''Invalid GitHub username format''))"
proof -
  let ?b = "alpha_ann\<lparr>a_github := Some (js ''a-'')\<rparr>"
  have 1: "req_method (post ?b) = js ''POST''" by simp
  have 2: "alpha_fields_ok (req_body (post ?b))"
    using alpha_ann_fields_ok [of "Some (js ''a-'')"] by (simp add: js_def)
  have "\<not> test githubPattern (js ''a-'')" by code_simp
  then have 3: "\<not> test githubPattern (str (a_github (req_body (post ?b))))" by simp
  have 4: "test spec_githubPattern (js ''a-'')" by code_simp
  from alpha_handler_invalid_github [OF 1 2 3, of env_up] 4 show ?thesis by simp
qed

section \<open>Claims about failures of the outbound calls\<close>

text \<open>
  C1 (as the code has it). For every valid submission to the waitlist or the referral
  endpoint with the email service configured, if the first call, the email to the end
  user, gets a non-success HTTP response, the handler answers 500 with its generic error
  body, and that call is the only outbound call of the request.
\<close>

theorem critical_email_failure:
  assumes "truthy (SENDGRID_API_KEY e)" and "net e 0 = Resolves r" and "\<not> resp_ok r"
  shows "(req_method wreq = js ''POST'' \<and> waitlist_valid (req_body wreq) \<longrightarrow>
            fst (waitlist_handler e wreq) = json 500 (Error (js ''Failed to process signup''))
            \<and> calls (snd (waitlist_handler e wreq)) = [hd (waitlist_jobs e (req_body wreq))])
       \<and> (req_method rreq = js ''POST'' \<and> referral_fields_ok (req_body rreq)
            \<and> \<not> self_referral e (req_body rreq) \<longrightarrow>
            fst (referral_handler e rreq) = json 500 (Error (js ''Failed to process referral''))
            \<and> calls (snd (referral_handler e rreq)) = [hd (referral_jobs e (req_body rreq))])"
  using waitlist_critical [OF assms] referral_critical [OF assms] by blast

theorem critical_email_failure_witness:
  "truthy (SENDGRID_API_KEY env_down) \<and> net env_down 0 = Resolves resp_failure
   \<and> \<not> resp_ok resp_failure
   \<and> req_method (post waitlist_ann) = js ''POST'' \<and> waitlist_valid waitlist_ann
   \<and> req_method (post referral_ann) = js ''POST'' \<and> referral_fields_ok referral_ann
   \<and> \<not> self_referral env_down referral_ann
   \<and> fst (waitlist_handler env_down (post waitlist_ann))
       = json 500 (Error (js ''Failed to process signup''))
   \<and> fst (referral_handler env_down (post referral_ann))
       = json 500 (Error (js ''Failed to process referral''))"
proof -
  have r: "\<not> self_referral env_down referral_ann"
    using referral_ann_not_self [where k = "SENDGRID_API_KEY env_up" and n = "\<lambda>n. Resolves resp_failure"]
    by (simp add: env_down_def)
  from critical_email_failure [OF env_down_simps(1) env_down_simps(3) env_down_simps(4),
      of "post waitlist_ann" "post referral_ann"]
    env_down_simps waitlist_ann_valid referral_ann_fields_ok r
  show ?thesis by simp
qed

text \<open>
  The alpha handler never looks at the response of the email service: with every call
  answered by a non-success response, its second call is the email to the end user and
  the answer is 200.
\<close>

theorem alpha_ignores_email_failure:
  "truthy (SENDGRID_API_KEY env_down)
   \<and> calls (snd (alpha_handler env_down (post alpha_ann))) ! 1
       = MailSend (js ''SG.key'') (alpha_user_mail (js ''Ann'') (js ''a@b.com'') (js ''ann-dev''))
   \<and> net env_down 1 = Resolves resp_failure \<and> \<not> resp_ok resp_failure
   \<and> fst (alpha_handler env_down (post alpha_ann))
       = json 200 (Success (js ''Alpha access request submitted!''))"
proof -
  have 1: "req_method (post alpha_ann) = js ''POST''" by simp
  have 2: "alpha_fields_ok (req_body (post alpha_ann))"
    using alpha_ann_fields_ok [of "a_github alpha_ann"] by (simp add: alpha_ann_def js_def)
  have 3: "test githubPattern (str (a_github (req_body (post alpha_ann))))"
    by (simp add: alpha_ann_github github_ann)
  have h: "alpha_handler env_down (post alpha_ann) =
      (json 200 (Success (js ''Alpha access request submitted!'')), alpha_finish env_down alpha_ann init)"
    by (simp add: alpha_handler_valid [OF 1 2 3] env_down_simps)
  have c: "calls (alpha_finish env_down alpha_ann init) = alpha_jobs env_down alpha_ann"
    by (simp add: alpha_finish_def alpha_send_emails_def sendAdminNotification_def
        sendUserConfirmation_def alpha_addToContactList_def fetch_def env_down_simps
        alpha_jobs_def)
  show ?thesis
    by (simp only: h fst_conv snd_conv c) (simp add: env_down_simps alpha_jobs_def alpha_ann_def)
qed


lemma waitlist_invalid:
  assumes "req_method req = js ''POST''" "\<not> waitlist_valid (req_body req)"
  shows "waitlist_handler e req = (json 400 (Error (js ''Valid email required'')), init)"
  using assms by (auto simp: waitlist_handler_POST waitlist_try_def waitlist_valid_def Let_def)

lemma waitlist_valid_not_400:
  assumes "req_method req = js ''POST''" "waitlist_valid (req_body req)"
  shows "status (fst (waitlist_handler e req)) \<noteq> 400"
proof (cases "truthy (SENDGRID_API_KEY e)")
  case True
  from waitlist_calls(5) [OF True assms] show ?thesis .
next
  case False
  with assms show ?thesis
    by (simp add: waitlist_handler_POST waitlist_try_def waitlist_valid_def Let_def json_def)
qed

text \<open>
  C10. The waitlist handler validates the email field and nothing else. For every
  \<open>POST\<close> request with a body: when the email is missing, empty or without \<open>@\<close>, the
  answer is 400 with the error \<open>Valid email required\<close> and no outbound call is made;
  when the email is present and contains \<open>@\<close>, the request is not rejected with 400
  whatever the name and the type are, also when they are missing. With the email service
  configured, the first outbound call of such a request is the email to the submitted
  address, and the answer is 200 when the calls succeed. Every type other than exactly
  \<open>foundation100\<close> (also a missing one) gets the waitlist subject and the waitlist
  template.
\<close>

theorem waitlist_only_email_validated:
  assumes "req_method req = js ''POST''"
  shows "(\<not> waitlist_valid (req_body req) \<longrightarrow>
            fst (waitlist_handler e req) = json 400 (Error (js ''Valid email required''))
            \<and> calls (snd (waitlist_handler e req)) = [])
       \<and> (waitlist_valid (req_body req) \<longrightarrow> status (fst (waitlist_handler e req)) \<noteq> 400)
       \<and> (waitlist_valid (req_body req) \<and> truthy (SENDGRID_API_KEY e) \<longrightarrow>
            hd (calls (snd (waitlist_handler e req)))
              = MailSend (str (SENDGRID_API_KEY e))
                  (waitlist_user_mail (str (w_email (req_body req))) (w_name (req_body req))
                     (w_type (req_body req)))
            \<and> (all_ok e \<longrightarrow>
                 fst (waitlist_handler e req)
                   = json 200 (Success (js ''Successfully joined the waitlist!'')))
            \<and> (w_type (req_body req) \<noteq> Some (js ''foundation100'') \<longrightarrow>
                 waitlist_user_mail (str (w_email (req_body req))) (w_name (req_body req))
                     (w_type (req_body req))
                   = \<lparr>mail_to = str (w_email (req_body req)), from_email = FROM_EMAIL,
                      from_name = js ''Neural Commander'',
                      subject = [0xD83D, 0xDE80] @ js '' You're on the Neural Commander Waitlist!'',
                      content = WaitlistEmail (or_else (w_name (req_body req)) (js ''there''))\<rparr>
                 \<and> subject (waitlist_admin_mail (str (w_email (req_body req)))
                      (w_name (req_body req)) (w_type (req_body req)))
                   = [0xD83D, 0xDCCB] @ js '' New Waitlist Signup: ''
                     @ str (w_email (req_body req))))"
proof (intro conjI impI)
  assume n: "\<not> waitlist_valid (req_body req)"
  show "fst (waitlist_handler e req) = json 400 (Error (js ''Valid email required''))"
    and "calls (snd (waitlist_handler e req)) = []"
    by (simp_all add: waitlist_invalid [OF assms n])
next
  assume "waitlist_valid (req_body req)"
  with assms show "status (fst (waitlist_handler e req)) \<noteq> 400"
    by (rule waitlist_valid_not_400)
next
  assume a: "waitlist_valid (req_body req) \<and> truthy (SENDGRID_API_KEY e)"
  note c = waitlist_calls [OF conjunct2 [OF a] assms conjunct1 [OF a]]
  have "hd (calls (snd (waitlist_handler e req))) = hd (waitlist_jobs e (req_body req))"
    using c(2) c(1) by (rule hd_prefix)
  then show "hd (calls (snd (waitlist_handler e req)))
           = MailSend (str (SENDGRID_API_KEY e))
               (waitlist_user_mail (str (w_email (req_body req))) (w_name (req_body req))
                  (w_type (req_body req)))"
    by (simp add: waitlist_jobs_def)
  {
    assume "all_ok e"
    then show "fst (waitlist_handler e req)
                   = json 200 (Success (js ''Successfully joined the waitlist!''))"
      by (rule c(4))
  }
  {
    assume t: "w_type (req_body req) \<noteq> Some (js ''foundation100'')"
    then show "waitlist_user_mail (str (w_email (req_body req))) (w_name (req_body req))
                     (w_type (req_body req))
                   = \<lparr>mail_to = str (w_email (req_body req)), from_email = FROM_EMAIL,
                      from_name = js ''Neural Commander'',
                      subject = [0xD83D, 0xDE80] @ js '' You're on the Neural Commander Waitlist!'',
                      content = WaitlistEmail (or_else (w_name (req_body req)) (js ''there''))\<rparr>"
      by (simp add: waitlist_user_mail_def)
    from t show "subject (waitlist_admin_mail (str (w_email (req_body req)))
                      (w_name (req_body req)) (w_type (req_body req)))
                   = [0xD83D, 0xDCCB] @ js '' New Waitlist Signup: ''
                     @ str (w_email (req_body req))"
      by (simp add: waitlist_admin_mail_def)
  }
qed

theorem waitlist_only_email_validated_witness:
  "req_method (post waitlist_bare) = js ''POST'' \<and> waitlist_valid waitlist_bare
   \<and> truthy (SENDGRID_API_KEY env_up) \<and> all_ok env_up
   \<and> w_name waitlist_bare = None \<and> w_type waitlist_bare = None
   \<and> w_type waitlist_bare \<noteq> Some (js ''foundation100'')
   \<and> fst (waitlist_handler env_up (post waitlist_bare))
       = json 200 (Success (js ''Successfully joined the waitlist!''))
   \<and> hd (calls (snd (waitlist_handler env_up (post waitlist_bare))))
       = MailSend (js ''SG.key'')
           \<lparr>mail_to = js ''a@b.com'', from_email = FROM_EMAIL,
            from_name = js ''Neural Commander'',
            subject = [0xD83D, 0xDE80] @ js '' You're on the Neural Commander Waitlist!'',
            content = WaitlistEmail (js ''there'')\<rparr>
   \<and> \<not> waitlist_valid (waitlist_ann\<lparr>w_email := Some (js ''ann.example.com'')\<rparr>)
   \<and> fst (waitlist_handler env_up (post (waitlist_ann\<lparr>w_email := Some (js ''ann.example.com'')\<rparr>)))
       = json 400 (Error (js ''Valid email required''))
   \<and> calls (snd (waitlist_handler env_up
        (post (waitlist_ann\<lparr>w_email := Some (js ''ann.example.com'')\<rparr>)))) = []
   \<and> \<not> waitlist_valid (waitlist_ann\<lparr>w_email := None\<rparr>)
   \<and> fst (waitlist_handler env_up (post (waitlist_ann\<lparr>w_email := None\<rparr>)))
       = json 400 (Error (js ''Valid email required''))"
proof -
  have 1: "req_method (post b) = js ''POST''" for b :: waitlist_data by simp
  have 2: "waitlist_valid (req_body (post waitlist_bare))"
    by (simp add: waitlist_valid_def waitlist_bare_def includes_unit_def at_sign_def js_def)
  have 3: "all_ok env_up"
    using all_ok_env_up [of "TURNSTILE_SECRET_KEY env_up"] by simp
  have 4: "w_name waitlist_bare = None" "w_type waitlist_bare = None"
    "str (w_email waitlist_bare) = js ''a@b.com''"
    by (simp_all add: waitlist_bare_def)
  have 5: "\<not> waitlist_valid (req_body (post (waitlist_ann\<lparr>w_email := Some (js ''ann.example.com'')\<rparr>)))"
    by (simp add: waitlist_valid_def includes_unit_def at_sign_def js_def)
  have 6: "\<not> waitlist_valid (req_body (post (waitlist_ann\<lparr>w_email := None\<rparr>)))"
    by (simp add: waitlist_valid_def)
  from waitlist_only_email_validated [OF 1, of waitlist_bare env_up]
    waitlist_only_email_validated [OF 1, of "waitlist_ann\<lparr>w_email := Some (js ''ann.example.com'')\<rparr>" env_up]
    waitlist_only_email_validated [OF 1, of "waitlist_ann\<lparr>w_email := None\<rparr>" env_up]
    1 2 3 4 5 6 env_up_key
  show ?thesis by (simp add: or_else_def)
qed

text \<open>
  C2. In the waitlist handler the \<open>fetch\<close> of the admin notification is not guarded:
  when it rejects, the exception reaches the outer \<open>catch\<close> and the request that had
  already sent its confirmation email is answered with 500.
\<close>

theorem waitlist_admin_fetch_rejects:
  "net env_admin_rejects 0 = Resolves resp_success \<and> resp_ok resp_success
   \<and> net env_admin_rejects 1 = Rejects
   \<and> calls (snd (waitlist_handler env_admin_rejects (post waitlist_ann)))
       = [MailSend (js ''SG.key'')
            (waitlist_user_mail (js ''a@b.com'') (Some (js ''Ann'')) (Some (js ''waitlist''))),
          MailSend (js ''SG.key'')
            (waitlist_admin_mail (js ''a@b.com'') (Some (js ''Ann'')) (Some (js ''waitlist'')))]
   \<and> fst (waitlist_handler env_admin_rejects (post waitlist_ann))
       = json 500 (Error (js ''Failed to process signup''))"
proof -
  have k: "truthy (SENDGRID_API_KEY env_admin_rejects)"
    "str (SENDGRID_API_KEY env_admin_rejects) = js ''SG.key''"
    "net env_admin_rejects 0 = Resolves resp_success" "resp_ok resp_success"
    "net env_admin_rejects (Suc 0) = Rejects"
    by (simp_all add: env_admin_rejects_def env_up_def resp_success_def js_def)
  have v: "truthy (w_email waitlist_ann)" "includes_unit (js ''a@b.com'') at_sign"
    by (simp_all add: waitlist_ann_def includes_unit_def at_sign_def js_def)
  have w: "str (w_email waitlist_ann) = js ''a@b.com''" "w_name waitlist_ann = Some (js ''Ann'')"
    "w_type waitlist_ann = Some (js ''waitlist'')"
    by (simp_all add: waitlist_ann_def)
  have "waitlist_try env_admin_rejects waitlist_ann init =
      (Inl FetchRejected,
       \<lparr>calls = [MailSend (js ''SG.key'')
            (waitlist_user_mail (js ''a@b.com'') (Some (js ''Ann'')) (Some (js ''waitlist''))),
          MailSend (js ''SG.key'')
            (waitlist_admin_mail (js ''a@b.com'') (Some (js ''Ann'')) (Some (js ''waitlist'')))],
        logs = []\<rparr>)"
    by (simp add: waitlist_try_def Let_def k v w fetch_def init_def)
  then show ?thesis
    by (simp add: waitlist_handler_POST k)
qed

section \<open>Claims about the order of the outbound calls\<close>

text \<open>
  C8 (as the code has it). With the email service configured, every handler issues its
  email-service calls one after the other in a fixed order, stopping at the first call
  whose failure ends the dispatch, and issues all of them when every call succeeds:
  the waitlist handler sends the user confirmation, the admin notification, then the
  contact upsert; the referral handler sends the invite to the friend, the confirmation
  to the referrer, the admin notification, then the contact upsert; the alpha handler
  sends the admin notification, the user confirmation, then the contact upsert.
\<close>

theorem dispatch_order:
  assumes "truthy (SENDGRID_API_KEY e)"
  shows "(req_method wreq = js ''POST'' \<and> waitlist_valid (req_body wreq) \<longrightarrow>
            calls (snd (waitlist_handler e wreq)) \<noteq> []
            \<and> prefix (calls (snd (waitlist_handler e wreq))) (waitlist_jobs e (req_body wreq))
            \<and> (all_ok e \<longrightarrow>
                 calls (snd (waitlist_handler e wreq)) = waitlist_jobs e (req_body wreq)))
       \<and> (req_method rreq = js ''POST'' \<and> referral_fields_ok (req_body rreq)
            \<and> \<not> self_referral e (req_body rreq) \<longrightarrow>
            calls (snd (referral_handler e rreq)) \<noteq> []
            \<and> prefix (calls (snd (referral_handler e rreq))) (referral_jobs e (req_body rreq))
            \<and> (all_ok e \<longrightarrow>
                 calls (snd (referral_handler e rreq)) = referral_jobs e (req_body rreq)))
       \<and> (req_method areq = js ''POST'' \<and> alpha_fields_ok (req_body areq)
            \<and> test githubPattern (str (a_github (req_body areq)))
            \<and> bot_check_passes e (req_body areq) \<longrightarrow>
            filter (\<lambda>c. \<not> is_SiteVerify c) (calls (snd (alpha_handler e areq))) \<noteq> []
            \<and> prefix (filter (\<lambda>c. \<not> is_SiteVerify c) (calls (snd (alpha_handler e areq))))
                 (alpha_jobs e (req_body areq))
            \<and> (all_ok e \<longrightarrow>
                 filter (\<lambda>c. \<not> is_SiteVerify c) (calls (snd (alpha_handler e areq)))
                   = alpha_jobs e (req_body areq)))"
  using waitlist_calls(1,2,3) [OF assms, of wreq] referral_calls [OF assms, of rreq]
    alpha_calls(1,2,3) [OF assms, of areq]
  by blast

theorem dispatch_order_witness:
  "truthy (SENDGRID_API_KEY env_up) \<and> all_ok env_up
   \<and> req_method (post waitlist_ann) = js ''POST'' \<and> waitlist_valid waitlist_ann
   \<and> req_method (post referral_ann) = js ''POST'' \<and> referral_fields_ok referral_ann
   \<and> \<not> self_referral env_up referral_ann
   \<and> req_method (post alpha_ann) = js ''POST'' \<and> alpha_fields_ok alpha_ann
   \<and> test githubPattern (str (a_github alpha_ann)) \<and> bot_check_passes env_up alpha_ann
   \<and> calls (snd (waitlist_handler env_up (post waitlist_ann))) = waitlist_jobs env_up waitlist_ann
   \<and> calls (snd (referral_handler env_up (post referral_ann))) = referral_jobs env_up referral_ann
   \<and> filter (\<lambda>c. \<not> is_SiteVerify c) (calls (snd (alpha_handler env_up (post alpha_ann))))
       = alpha_jobs env_up alpha_ann"
proof -
  have a: "all_ok env_up"
    using all_ok_env_up [of "TURNSTILE_SECRET_KEY env_up"] by simp
  have r: "\<not> self_referral env_up referral_ann"
    using referral_ann_not_self [where k = "SENDGRID_API_KEY env_up" and n = "net env_up"] by simp
  have f: "alpha_fields_ok alpha_ann"
    using alpha_ann_fields_ok [of "a_github alpha_ann"] by (simp add: alpha_ann_def js_def)
  have g: "test githubPattern (str (a_github alpha_ann))"
    by (simp only: alpha_ann_github github_ann)
  have b: "bot_check_passes env_up alpha_ann"
    using alpha_ann_no_token [of env_up "a_github alpha_ann"] by simp
  from dispatch_order [OF env_up_key(1), of "post waitlist_ann" "post referral_ann" "post alpha_ann"]
    env_up_key(1) a waitlist_ann_valid referral_ann_fields_ok r f g b
  show ?thesis by simp
qed

text \<open>
  With every call succeeding, the first call of the alpha handler goes to the admin and
  the email to the end user comes second; in the referral handler the confirmation to
  the referrer comes second and the admin notification third.
\<close>

theorem admin_notification_not_second:
  "calls (snd (alpha_handler env_up (post alpha_ann)))
     = [MailSend (js ''SG.key'')
          (alpha_admin_mail (js ''Ann'') (js ''a@b.com'') (js ''ann-dev'') (js ''reddit'')
             (js ''I want to try the alpha build'')),
        MailSend (js ''SG.key'') (alpha_user_mail (js ''Ann'') (js ''a@b.com'') (js ''ann-dev'')),
        alpha_contacts env_up (js ''Ann'') (js ''a@b.com'') (js ''ann-dev'') (js ''reddit'')]
   \<and> mail_to (alpha_admin_mail (js ''Ann'') (js ''a@b.com'') (js ''ann-dev'') (js ''reddit'')
        (js ''I want to try the alpha build'')) = ADMIN_EMAIL
   \<and> mail_to (alpha_user_mail (js ''Ann'') (js ''a@b.com'') (js ''ann-dev'')) = js ''a@b.com''
   \<and> calls (snd (referral_handler env_up (post referral_ann))) ! 1
       = MailSend (js ''SG.key'') (referrer_mail (js ''a@b.com'') (js ''Ann'') (js ''Bob'') None)
   \<and> calls (snd (referral_handler env_up (post referral_ann))) ! 2
       = MailSend (js ''SG.key'')
           (referral_admin_mail (js ''Ann'') (js ''a@b.com'') None (js ''Bob'') (js ''bob@b.com'')
              (generateReferralCode (js ''a@b.com'')))"
proof -
  have a: "all_ok env_up"
    using all_ok_env_up [of "TURNSTILE_SECRET_KEY env_up"] by simp
  have r: "\<not> self_referral env_up referral_ann"
    using referral_ann_not_self [where k = "SENDGRID_API_KEY env_up" and n = "net env_up"] by simp
  have f: "alpha_fields_ok (req_body (post alpha_ann))"
    using alpha_ann_fields_ok [of "a_github alpha_ann"] by (simp add: alpha_ann_def js_def)
  have g: "test githubPattern (str (a_github (req_body (post alpha_ann))))"
    by (simp add: alpha_ann_github github_ann)
  have h: "alpha_handler env_up (post alpha_ann) =
      (json 200 (Success (js ''Alpha access request submitted!'')), alpha_finish env_up alpha_ann init)"
    using alpha_handler_valid [OF post_simps(1) f g, of env_up] by (simp add: env_up_def)
  have "calls (alpha_finish env_up alpha_ann init) = alpha_jobs env_up alpha_ann"
    using alpha_send_emails_all_ok [OF a] env_up_key(1) by (simp add: alpha_finish_def alpha_jobs_def)
  then have 1: "calls (snd (alpha_handler env_up (post alpha_ann))) = alpha_jobs env_up alpha_ann"
    by (simp only: h snd_conv)
  have 2: "calls (snd (referral_handler env_up (post referral_ann))) = referral_jobs env_up referral_ann"
    using referral_calls(3) [OF env_up_key(1) post_simps(1), of referral_ann] referral_ann_fields_ok r a
    by simp
  show ?thesis
    by (simp only: 1 2)
       (simp add: alpha_jobs_def referral_jobs_def env_up_key alpha_ann_def referral_ann_def
          alpha_admin_mail_def alpha_user_mail_def)
qed

end
